theory Spec2Isabelle
  imports Complex_Main "HOL-Library.AList"
begin

section \<open>Product catalogue import: data model\<close>

text \<open>
  The wizard \<^verbatim>\<open>product.import\<close> of \<^verbatim>\<open>product_import/wizard/product_import.py\<close>.

  Conventions of the embedding.
  \<^item> A database id is a natural number. Python's \<^verbatim>\<open>False\<close> (the id of an empty
    recordset, an unset many2one, an unset company) is the number \<open>0\<close>: in Python
    \<^verbatim>\<open>False == 0\<close> holds, \<^verbatim>\<open>0 in (x, False)\<close> holds and both are falsy, so
    equality, membership and truth tests agree with the source.
  \<^item> A date is its day number (\<^verbatim>\<open>date.toordinal()\<close>); \<^verbatim>\<open>timedelta(days=1)\<close> is \<open>1\<close>.
    A date field that is unset (\<^verbatim>\<open>False\<close>) is \<open>None\<close>.
  \<^item> A character field that is only carried along (barcode, code, description) is
    \<open>None\<close> when it is unset. The field \<^verbatim>\<open>product_code\<close>, which the reconciliation
    compares with \<^verbatim>\<open>==\<close>, keeps Python's \<^verbatim>\<open>False\<close> and \<^verbatim>\<open>None\<close> apart (type \<open>pychar\<close>).
  \<^item> Prices and quantities are rational numbers; only their equality is used.
  \<^item> An exception is a value \<open>Inl e\<close> of a sum type.
\<close>

type_synonym date = int

text \<open>
  The value of a character field that is compared: \<^verbatim>\<open>False\<close>, \<^verbatim>\<open>None\<close> or a string.
  Python's \<^verbatim>\<open>==\<close> on these values is the equality of the datatype: \<^verbatim>\<open>False == None\<close>,
  \<^verbatim>\<open>False == ""\<close> and \<^verbatim>\<open>None == ""\<close> are all false. The ORM stores \<^verbatim>\<open>None\<close> as an unset
  field, which reads back as \<^verbatim>\<open>False\<close>.
\<close>

datatype pychar = PyFalse | PyNone | PyStr string

definition orm_char :: "pychar \<Rightarrow> pychar" where
  "orm_char v = (case v of PyNone \<Rightarrow> PyFalse | PyFalse \<Rightarrow> PyFalse | PyStr x \<Rightarrow> PyStr x)"

datatype message =
    Not_XML_compliant
  | No_data_provided
  | Unsupported_XML_document
  | File_not_supported
  | No_product_in_catalogue
  | Resolver_message string

datatype error =
    UserError message
  | NotImplementedError message
  | AssertionError string
  | KeyError string
  | TypeError string
  | RuntimeError string
  | OtherError string

text \<open>
  A parsed catalogue line: the dict \<^verbatim>\<open>parsed_product\<close>. The keys read with
  \<^verbatim>\<open>parsed_product[...]\<close> are always there; the keys read with \<^verbatim>\<open>.get(key, default)\<close>
  (\<^verbatim>\<open>sale_delay\<close>, \<^verbatim>\<open>active\<close>) may be missing, which is \<open>None\<close>.
\<close>

record parsed_product =
  pp_barcode :: "string option"
  pp_code :: "string option"
  pp_name :: string
  pp_description :: "string option"
  pp_uom :: string
  pp_currency :: string
  pp_price :: rat
  pp_min_qty :: rat
  pp_product_code :: pychar
  pp_sale_delay :: "int option"
  pp_active :: "bool option"

section \<open>Chunking in \<^verbatim>\<open>import_button\<close>\<close>

text \<open>
  \<^verbatim>\<open>zip_longest(*[iter(products)] * chunk_size)\<close>: every tuple draws \<open>chunk_size\<close>
  items from the one shared iterator; an exhausted iterator gives the fill value
  \<^verbatim>\<open>None\<close>; the iteration stops when a round draws nothing. With \<open>chunk_size = 0\<close>
  there is no iterator and no tuple at all.
\<close>

function zip_longest :: "nat \<Rightarrow> 'a list \<Rightarrow> 'a option list list" where
  "zip_longest n xs =
     (if n = 0 \<or> xs = [] then []
      else (map Some (take n xs) @ replicate (n - length (take n xs)) None)
           # zip_longest n (drop n xs))"
  by pat_completeness auto
termination
  by (relation "measure (\<lambda>(n, xs). length xs)") auto

text \<open>
  The truth value of a tuple entry: \<^verbatim>\<open>None\<close> is falsy; a parsed line is a dict that
  holds its mandatory keys, so it is not empty and is truthy.
\<close>

fun truthy :: "parsed_product option \<Rightarrow> bool" where
  "truthy None = False"
| "truthy (Some p) = True"

text \<open>
  Lines 268-269: \<^verbatim>\<open>if products[-1] is None: products = [p for p in products if p]\<close>.
  A tuple of \<^verbatim>\<open>zip_longest\<close> has \<open>chunk_size \<ge> 1\<close> entries, so \<^verbatim>\<open>products[-1]\<close> exists.
\<close>

definition chunk_products :: "parsed_product option list \<Rightarrow> parsed_product option list" where
  "chunk_products products =
     (if last products = None then filter truthy products else products)"

definition import_chunks :: "nat \<Rightarrow> parsed_product list \<Rightarrow> parsed_product option list list" where
  "import_chunks chunk_size products = map chunk_products (zip_longest chunk_size products)"

definition CHUNK_SIZE :: nat where
  "CHUNK_SIZE = 40"

section \<open>Reconciling the offers of a seller: \<^verbatim>\<open>_prepare_supplierinfo\<close>\<close>

text \<open>
  A \<^verbatim>\<open>product.supplierinfo\<close> record as the method reads it: \<^verbatim>\<open>s_info.id\<close>,
  \<^verbatim>\<open>s_info.name.id\<close> (the seller), \<^verbatim>\<open>s_info.company_id.id\<close>, \<^verbatim>\<open>s_info.date_end\<close>
  and the compared fields.
\<close>

record supplierinfo =
  s_id :: nat
  s_name :: nat
  s_company_id :: nat
  s_date_start :: "date option"
  s_date_end :: "date option"
  s_product_code :: pychar
  s_min_qty :: rat
  s_price :: rat
  s_currency_id :: nat
  s_delay :: int

text \<open>
  The dict \<^verbatim>\<open>seller_info\<close> (the candidate offer). The key \<^verbatim>\<open>date_start\<close> is optional:
  \<open>None\<close> when the dict does not have it.
\<close>

record seller_info =
  si_name :: nat
  si_product_code :: pychar
  si_price :: rat
  si_currency_id :: nat
  si_min_qty :: rat
  si_company_id :: nat
  si_delay :: int
  si_date_start :: "date option"

text \<open>
  An offer write is the tuple \<^verbatim>\<open>(command, line_id, values)\<close>; \<open>values\<close> is either
  \<^verbatim>\<open>{"date_end": d}\<close> or the \<^verbatim>\<open>seller_info\<close> dict.
\<close>

datatype vals = Date_end date | Seller_info seller_info

type_synonym command = "nat \<times> nat \<times> vals"

text \<open>A \<^verbatim>\<open>product.product\<close> record with its one2many \<^verbatim>\<open>seller_ids\<close>.\<close>

record product =
  p_id :: nat
  p_active :: bool
  p_default_code :: "string option"
  p_barcode :: "string option"
  p_name :: string
  p_description :: "string option"
  p_type :: string
  p_uom_id :: nat
  p_uom_po_id :: nat
  p_company_id :: nat
  p_seller_ids :: "supplierinfo list"

text \<open>Lines 133-138: the three \<^verbatim>\<open>continue\<close> guards; an offer that passes none is considered.\<close>

definition other_seller :: "seller_info \<Rightarrow> supplierinfo \<Rightarrow> bool" where
  "other_seller seller_info s_info \<longleftrightarrow> s_name s_info \<noteq> si_name seller_info"

definition other_company :: "seller_info \<Rightarrow> supplierinfo \<Rightarrow> bool" where
  "other_company seller_info s_info \<longleftrightarrow>
     s_company_id s_info \<notin> set [si_company_id seller_info, 0]"

definition ended_before :: "date \<Rightarrow> supplierinfo \<Rightarrow> bool" where
  "ended_before today s_info \<longleftrightarrow>
     (case s_date_end s_info of None \<Rightarrow> False | Some d \<Rightarrow> d < today)"

text \<open>
  Lines 139-146: the six compared fields, each with Python's \<^verbatim>\<open>==\<close>. A stored
  \<^verbatim>\<open>product_code\<close> that is \<^verbatim>\<open>False\<close> is not equal to a candidate's \<^verbatim>\<open>None\<close>.
\<close>

definition same_fields :: "seller_info \<Rightarrow> supplierinfo \<Rightarrow> bool" where
  "same_fields seller_info s_info \<longleftrightarrow>
     s_product_code s_info = si_product_code seller_info
     \<and> s_min_qty s_info = si_min_qty seller_info
     \<and> s_price s_info = si_price seller_info
     \<and> s_currency_id s_info = si_currency_id seller_info
     \<and> s_company_id s_info = si_company_id seller_info
     \<and> s_delay s_info = si_delay seller_info"

text \<open>
  The loop of lines 132-149 over \<^verbatim>\<open>product.seller_ids\<close>; its state is
  \<^verbatim>\<open>(seller_id, result)\<close>.
\<close>

fun terminate_previous ::
  "date \<Rightarrow> date \<Rightarrow> seller_info \<Rightarrow> supplierinfo list \<Rightarrow> nat \<times> command list
   \<Rightarrow> nat \<times> command list" where
  "terminate_previous today yesterday seller_info [] (seller_id, result) = (seller_id, result)"
| "terminate_previous today yesterday seller_info (s_info # rest) (seller_id, result) =
     (if other_seller seller_info s_info then
        terminate_previous today yesterday seller_info rest (seller_id, result)
      else if other_company seller_info s_info then
        terminate_previous today yesterday seller_info rest (seller_id, result)
      else if ended_before today s_info then
        terminate_previous today yesterday seller_info rest (seller_id, result)
      else if same_fields seller_info s_info then
        terminate_previous today yesterday seller_info rest (s_id s_info, result)
      else
        terminate_previous today yesterday seller_info rest
          (seller_id, result @ [(1, s_id s_info, Date_end yesterday)]))"

text \<open>\<^verbatim>\<open>seller_info.setdefault("date_start", today)\<close>.\<close>

definition setdefault_date_start :: "date \<Rightarrow> seller_info \<Rightarrow> seller_info" where
  "setdefault_date_start today seller_info =
     (case si_date_start seller_info of
        None \<Rightarrow> seller_info\<lparr>si_date_start := Some today\<rparr>
      | Some d \<Rightarrow> seller_info)"

text \<open>
  \<^verbatim>\<open>_prepare_supplierinfo(seller_info, product)\<close>; \<^verbatim>\<open>date.today()\<close> is the argument
  \<open>today\<close>, and \<open>product\<close> is a recordset of at most one record (\<open>None\<close> when empty).
  An Isabelle name cannot start with an underscore, so the method names lose theirs.
\<close>

definition prepare_supplierinfo :: "date \<Rightarrow> seller_info \<Rightarrow> product option \<Rightarrow> command list" where
  "prepare_supplierinfo today seller_info product =
     (let yesterday = today - 1;
          (seller_id, result) =
            (case product of
               None \<Rightarrow> (0, [])
             | Some p \<Rightarrow> terminate_previous today yesterday seller_info (p_seller_ids p) (0, []))
      in if seller_id = 0
         then result @ [(0, 0, Seller_info (setdefault_date_start today seller_info))]
         else result)"

text \<open>The vocabulary of the reconciliation, read off the guards of the loop.\<close>

definition offers_of :: "product option \<Rightarrow> supplierinfo list" where
  "offers_of product = (case product of None \<Rightarrow> [] | Some p \<Rightarrow> p_seller_ids p)"

definition considered :: "date \<Rightarrow> seller_info \<Rightarrow> supplierinfo \<Rightarrow> bool" where
  "considered today seller_info s_info \<longleftrightarrow>
     s_name s_info = si_name seller_info
     \<and> (s_company_id s_info = si_company_id seller_info \<or> s_company_id s_info = 0)
     \<and> (s_date_end s_info = None \<or> (\<exists>d. s_date_end s_info = Some d \<and> today \<le> d))"

definition conflicting :: "date \<Rightarrow> seller_info \<Rightarrow> supplierinfo \<Rightarrow> bool" where
  "conflicting today seller_info s_info \<longleftrightarrow>
     considered today seller_info s_info \<and> \<not> same_fields seller_info s_info"

definition is_update :: "command \<Rightarrow> bool" where
  "is_update c \<longleftrightarrow> fst c = 1"

definition is_create :: "command \<Rightarrow> bool" where
  "is_create c \<longleftrightarrow> fst c = 0"

section \<open>The product store\<close>

text \<open>
  The records the wizard reads and writes through the ORM: the products, each with its
  offers, and the next free database id. The ORM calls of the source are the functions
  below; a field that a write does not name keeps its value.
\<close>

record db =
  db_products :: "product list"
  db_next_id :: nat

text \<open>
  \<^verbatim>\<open>env["product.product"].with_context(active_test=...).search([("barcode", "=", b)],
  limit=1)\<close>: the first product whose barcode is \<open>b\<close>; with \<^verbatim>\<open>active_test\<close> on (the
  ORM's default) archived products are left out, with \<^verbatim>\<open>active_test=False\<close> they are not.
\<close>

definition search_barcode :: "bool \<Rightarrow> string \<Rightarrow> product list \<Rightarrow> product option" where
  "search_barcode active_test b ps =
     find (\<lambda>p. p_barcode p = Some b \<and> (if active_test then p_active p else True)) ps"

fun write_vals :: "vals \<Rightarrow> supplierinfo \<Rightarrow> supplierinfo" where
  "write_vals (Date_end d) s = s\<lparr>s_date_end := Some d\<rparr>"
| "write_vals (Seller_info v) s =
     s\<lparr>s_name := si_name v, s_company_id := si_company_id v,
       s_date_start := (case si_date_start v of None \<Rightarrow> s_date_start s | Some d \<Rightarrow> Some d),
       s_product_code := orm_char (si_product_code v), s_min_qty := si_min_qty v, s_price := si_price v,
       s_currency_id := si_currency_id v, s_delay := si_delay v\<rparr>"

definition new_supplierinfo :: "nat \<Rightarrow> vals \<Rightarrow> supplierinfo" where
  "new_supplierinfo i values =
     write_vals values
       \<lparr>s_id = i, s_name = 0, s_company_id = 0, s_date_start = None, s_date_end = None,
        s_product_code = PyFalse, s_min_qty = 0, s_price = 0, s_currency_id = 0, s_delay = 0\<rparr>"

text \<open>\<^verbatim>\<open>supplierinfo_obj.browse(line_id).write(values)\<close>.\<close>

definition supplierinfo_write :: "nat \<Rightarrow> vals \<Rightarrow> db \<Rightarrow> db" where
  "supplierinfo_write line_id values d =
     d\<lparr>db_products :=
         map (\<lambda>p. p\<lparr>p_seller_ids :=
                map (\<lambda>s. if s_id s = line_id then write_vals values s else s) (p_seller_ids p)\<rparr>)
           (db_products d)\<rparr>"

text \<open>\<^verbatim>\<open>supplierinfo_obj.create({**values, "product_id": product.id})\<close>.\<close>

definition supplierinfo_create :: "vals \<Rightarrow> nat \<Rightarrow> db \<Rightarrow> db" where
  "supplierinfo_create values product_id d =
     d\<lparr>db_products :=
         map (\<lambda>p. if p_id p = product_id
                then p\<lparr>p_seller_ids := p_seller_ids p @ [new_supplierinfo (db_next_id d) values]\<rparr>
                else p)
           (db_products d),
       db_next_id := Suc (db_next_id d)\<rparr>"

text \<open>
  The dict \<^verbatim>\<open>product_vals\<close> of \<^verbatim>\<open>_prepare_product\<close>. The key \<^verbatim>\<open>recordset\<close> is there only
  when the search found a product.
\<close>

record product_vals =
  pv_active :: bool
  pv_default_code :: "string option"
  pv_barcode :: "string option"
  pv_name :: string
  pv_description :: "string option"
  pv_type :: string
  pv_uom_id :: nat
  pv_uom_po_id :: nat
  pv_company_id :: nat
  pv_seller_ids :: "command list"
  pv_recordset :: "product option"

text \<open>\<^verbatim>\<open>product.write(product_vals)\<close>, after \<^verbatim>\<open>recordset\<close> and \<^verbatim>\<open>seller_ids\<close> were popped.\<close>

definition product_write :: "nat \<Rightarrow> product_vals \<Rightarrow> db \<Rightarrow> db" where
  "product_write product_id v d =
     d\<lparr>db_products :=
         map (\<lambda>p. if p_id p = product_id
                then p\<lparr>p_active := pv_active v, p_default_code := pv_default_code v,
                       p_barcode := pv_barcode v, p_name := pv_name v,
                       p_description := pv_description v, p_type := pv_type v,
                       p_uom_id := pv_uom_id v, p_uom_po_id := pv_uom_po_id v,
                       p_company_id := pv_company_id v\<rparr>
                else p)
           (db_products d)\<rparr>"

text \<open>
  The one2many commands of a \<^verbatim>\<open>create\<close>: \<open>0\<close> adds a line, \<open>1\<close> writes on a line.
\<close>

fun one2many_commands :: "command list \<Rightarrow> nat \<Rightarrow> supplierinfo list \<Rightarrow> supplierinfo list \<times> nat" where
  "one2many_commands [] n acc = (acc, n)"
| "one2many_commands ((c, i, v) # cs) n acc =
     (if c = 0 then one2many_commands cs (Suc n) (acc @ [new_supplierinfo n v])
      else if c = 1 then
        one2many_commands cs n (map (\<lambda>s. if s_id s = i then write_vals v s else s) acc)
      else one2many_commands cs n acc)"

text \<open>
  \<^verbatim>\<open>env["product.product"].create(product_vals)\<close>, after \<^verbatim>\<open>active\<close> was popped: the new
  product is active.
\<close>

definition product_create :: "product_vals \<Rightarrow> db \<Rightarrow> nat \<times> db" where
  "product_create v d =
     (let (offers, n) = one2many_commands (pv_seller_ids v) (Suc (db_next_id d)) []
      in (db_next_id d,
          d\<lparr>db_products := db_products d @
                [\<lparr>p_id = db_next_id d, p_active = True, p_default_code = pv_default_code v,
                  p_barcode = pv_barcode v, p_name = pv_name v,
                  p_description = pv_description v, p_type = pv_type v,
                  p_uom_id = pv_uom_id v, p_uom_po_id = pv_uom_po_id v,
                  p_company_id = pv_company_id v, p_seller_ids = offers\<rparr>],
            db_next_id := n\<rparr>))"

definition action_archive :: "nat \<Rightarrow> db \<Rightarrow> db" where
  "action_archive product_id d =
     d\<lparr>db_products := map (\<lambda>p. if p_id p = product_id then p\<lparr>p_active := False\<rparr> else p)
                      (db_products d)\<rparr>"

section \<open>The collaborators\<close>

datatype xml = Element string "xml list"

datatype log_msg =
    Cannot_import_product_without_barcode parsed_product
  | Product_created_updated nat
  | Matcher_note string

text \<open>A parsed catalogue: the dict that \<^verbatim>\<open>parse_xml_catalogue\<close> returns.\<close>

record catalogue =
  cat_products :: "parsed_product list option"
  cat_seller :: string
  cat_company :: "string option"
  cat_chatter_msg :: "log_msg list option"
  cat_attachments :: "(string \<times> string) list option"

text \<open>What \<^verbatim>\<open>parse_xml_catalogue\<close> returns: \<^verbatim>\<open>None\<close>, a document type, or a catalogue.\<close>

datatype parsed = Py_None | Doc_type string | Catalogue catalogue

text \<open>The keyword arguments of \<^verbatim>\<open>_match_partner\<close>; \<open>None\<close> is an argument left out.\<close>

record match_kw =
  partner_type :: string
  domain_is_company :: bool
  raise_exception :: "bool option"

text \<open>
  The methods that are not in this file: \<^verbatim>\<open>business.document.import\<close>'s matchers (each
  may raise, and may append to the \<^verbatim>\<open>chatter_msg\<close> list it is given), the search of
  \<^verbatim>\<open>res.company\<close> by partner, \<^verbatim>\<open>base64\<close>, \<^verbatim>\<open>etree.fromstring\<close> (\<open>None\<close> is
  \<^verbatim>\<open>XMLSyntaxError\<close>) and \<^verbatim>\<open>parse_xml_catalogue\<close>, which the format modules override.
\<close>

record env =
  match_uom :: "string \<Rightarrow> log_msg list \<Rightarrow> error + nat \<times> log_msg list"
  match_currency :: "string \<Rightarrow> log_msg list \<Rightarrow> error + nat \<times> log_msg list"
  match_partner :: "string \<Rightarrow> log_msg list \<Rightarrow> match_kw \<Rightarrow> error + nat \<times> log_msg list"
  company_search :: "nat \<Rightarrow> nat"
  b64decode :: "string \<Rightarrow> string"
  b64encode :: "string \<Rightarrow> string"
  fromstring :: "string \<Rightarrow> xml option"
  parse_xml_catalogue :: "xml option \<Rightarrow> bool \<Rightarrow> error + parsed"

text \<open>Lines 77-84: the method as this module defines it.\<close>

definition parse_xml_catalogue_base :: "xml option \<Rightarrow> bool \<Rightarrow> error + parsed" where
  "parse_xml_catalogue_base xml_root detect_doc_type = Inl (NotImplementedError File_not_supported)"

section \<open>Preparing and writing one product\<close>

text \<open>
  \<^verbatim>\<open>_prepare_product(parsed_product, chatter_msg, seller=None)\<close>. The result is \<open>None\<close>
  for \<^verbatim>\<open>False\<close>; the list \<^verbatim>\<open>chatter_msg\<close>, which the method and the matchers append to, is
  returned. \<open>product_company_id\<close> is the context key; \<open>seller\<close> is \<open>None\<close> for \<^verbatim>\<open>None\<close> or
  an empty recordset.
\<close>

definition prepare_product ::
  "env \<Rightarrow> db \<Rightarrow> nat \<Rightarrow> date \<Rightarrow> parsed_product \<Rightarrow> log_msg list \<Rightarrow> nat option
   \<Rightarrow> error + product_vals option \<times> log_msg list" where
  "prepare_product e d product_company_id today parsed_product chatter_msg seller =
     (case pp_barcode parsed_product of
        None \<Rightarrow>
          Inr (None, chatter_msg @ [Cannot_import_product_without_barcode parsed_product])
      | Some barcode \<Rightarrow>
          if barcode = [] then
            Inr (None, chatter_msg @ [Cannot_import_product_without_barcode parsed_product])
          else
            let product = search_barcode False barcode (db_products d) in
            case match_uom e (pp_uom parsed_product) chatter_msg of
              Inl err \<Rightarrow> Inl err
            | Inr (uom, chatter1) \<Rightarrow>
                case match_currency e (pp_currency parsed_product) chatter1 of
                  Inl err \<Rightarrow> Inl err
                | Inr (currency, chatter2) \<Rightarrow>
                    let seller_info =
                          \<lparr>si_name = (case seller of None \<Rightarrow> 0 | Some i \<Rightarrow> i),
                           si_product_code = pp_product_code parsed_product,
                           si_price = pp_price parsed_product,
                           si_currency_id = currency,
                           si_min_qty = pp_min_qty parsed_product,
                           si_company_id = product_company_id,
                           si_delay = (case pp_sale_delay parsed_product of
                                         None \<Rightarrow> 0 | Some n \<Rightarrow> n),
                           si_date_start = None\<rparr>
                    in Inr (Some
                         \<lparr>pv_active = (case pp_active parsed_product of
                                          None \<Rightarrow> True | Some a \<Rightarrow> a),
                          pv_default_code = pp_code parsed_product,
                          pv_barcode = pp_barcode parsed_product,
                          pv_name = pp_name parsed_product,
                          pv_description = pp_description parsed_product,
                          pv_type = ''product'',
                          pv_uom_id = uom,
                          pv_uom_po_id = uom,
                          pv_company_id = 0,
                          pv_seller_ids = prepare_supplierinfo today seller_info product,
                          pv_recordset = product\<rparr>,
                        chatter2))"

text \<open>Lines 234-240: the loop over the popped \<^verbatim>\<open>seller_ids\<close> of an existing product.\<close>

fun write_supplierinfo :: "command list \<Rightarrow> nat \<Rightarrow> db \<Rightarrow> error + db" where
  "write_supplierinfo [] product_id d = Inr d"
| "write_supplierinfo ((command, line_id, values) # rest) product_id d =
     (if command = 1 then
        write_supplierinfo rest product_id (supplierinfo_write line_id values d)
      else if command = 0 then
        write_supplierinfo rest product_id (supplierinfo_create values product_id d)
      else Inl (RuntimeError ''Command not supported''))"

text \<open>\<^verbatim>\<open>_create_update_product(product_vals)\<close>: the new store and the log line.\<close>

definition create_update_product :: "db \<Rightarrow> product_vals \<Rightarrow> error + db \<times> log_msg" where
  "create_update_product d product_vals =
     (case pv_recordset product_vals of
        Some product \<Rightarrow>
          (case write_supplierinfo (pv_seller_ids product_vals) (p_id product) d of
             Inl err \<Rightarrow> Inl err
           | Inr d1 \<Rightarrow>
               Inr (product_write (p_id product) product_vals d1,
                    Product_created_updated (p_id product)))
      | None \<Rightarrow>
          let (product_id, d1) = product_create product_vals d;
              d2 = (if \<not> pv_active product_vals then action_archive product_id d1 else d1)
          in Inr (d2, Product_created_updated product_id))"

text \<open>\<^verbatim>\<open>env["res.partner"].browse(seller_id)\<close>: empty for \<^verbatim>\<open>False\<close>.\<close>

definition browse :: "nat \<Rightarrow> nat option" where
  "browse i = (if i = 0 then None else Some i)"

text \<open>
  \<^verbatim>\<open>_create_update_products(products, seller_id)\<close>, the body of a queue job. An entry of
  \<^verbatim>\<open>products\<close> that is \<^verbatim>\<open>None\<close> cannot be subscripted.
\<close>

fun create_update_products_loop ::
  "env \<Rightarrow> nat \<Rightarrow> date \<Rightarrow> nat option \<Rightarrow> parsed_product option list \<Rightarrow> db \<times> log_msg list
   \<Rightarrow> error + db \<times> log_msg list" where
  "create_update_products_loop e company today seller [] (d, log_msgs) = Inr (d, log_msgs)"
| "create_update_products_loop e company today seller (None # rest) (d, log_msgs) =
     Inl (TypeError ''NoneType object is not subscriptable'')"
| "create_update_products_loop e company today seller (Some parsed_product # rest) (d, log_msgs) =
     (case prepare_product e d company today parsed_product log_msgs seller of
        Inl err \<Rightarrow> Inl err
      | Inr (None, log_msgs1) \<Rightarrow>
          create_update_products_loop e company today seller rest (d, log_msgs1)
      | Inr (Some product_vals, log_msgs1) \<Rightarrow>
          (case create_update_product d product_vals of
             Inl err \<Rightarrow> Inl err
           | Inr (d1, msg) \<Rightarrow>
               create_update_products_loop e company today seller rest (d1, log_msgs1 @ [msg])))"

definition create_update_products ::
  "env \<Rightarrow> nat \<Rightarrow> date \<Rightarrow> db \<Rightarrow> parsed_product option list \<Rightarrow> nat \<Rightarrow> error + db \<times> log_msg list" where
  "create_update_products e company today d products seller_id =
     create_update_products_loop e company today (browse seller_id) products (d, [])"

section \<open>Parsing the file\<close>

text \<open>
  \<^verbatim>\<open>_parse_xml(data)\<close>: the pair \<^verbatim>\<open>(xml_root, error_msg)\<close>. The \<^verbatim>\<open>except\<close> clause of the
  detection call catches \<^verbatim>\<open>UserError\<close> and \<^verbatim>\<open>NotImplementedError\<close>; any other exception
  goes on to the caller.
\<close>

definition parse_xml :: "env \<Rightarrow> string \<Rightarrow> error + xml option \<times> message option" where
  "parse_xml e data =
     (let (xml_root, error_msg) =
            (if data \<noteq> [] then
               (case fromstring e data of
                  Some tree \<Rightarrow> (Some tree, None)
                | None \<Rightarrow> (None, Some Not_XML_compliant))
             else (None, Some No_data_provided))
      in if error_msg = None then
           (case parse_xml_catalogue e xml_root True of
              Inl (UserError m) \<Rightarrow> Inr (xml_root, Some Unsupported_XML_document)
            | Inl (NotImplementedError m) \<Rightarrow> Inr (xml_root, Some Unsupported_XML_document)
            | Inl err \<Rightarrow> Inl err
            | Inr r \<Rightarrow> Inr (xml_root, error_msg))
         else Inr (xml_root, error_msg))"

text \<open>
  \<^verbatim>\<open>_parse_file(filename, filecontent, detect_doc_type=False)\<close>. A filename that is unset
  (\<^verbatim>\<open>False\<close>) is the empty string: both are falsy.
\<close>

definition parse_file :: "env \<Rightarrow> string \<Rightarrow> string \<Rightarrow> bool \<Rightarrow> error + parsed" where
  "parse_file e filename filecontent detect_doc_type =
     (if filename = [] then Inl (AssertionError ''Missing filename'')
      else if filecontent = [] then Inl (AssertionError ''Missing file content'')
      else
        case parse_xml e filecontent of
          Inl err \<Rightarrow> Inl err
        | Inr (xml_root, error_msg) \<Rightarrow>
            (case error_msg of
               Some m \<Rightarrow> Inl (UserError m)
             | None \<Rightarrow> parse_xml_catalogue e xml_root detect_doc_type))"

text \<open>The wizard record: the binary field (\<open>None\<close> when unset) and the filename.\<close>

record wizard =
  product_file :: "string option"
  product_filename :: string

text \<open>
  \<^verbatim>\<open>parse_product_catalogue(product_file, product_filename)\<close>. A result of
  \<^verbatim>\<open>parse_xml_catalogue\<close> that is not a dict cannot take the \<^verbatim>\<open>in\<close> test.
\<close>

definition parse_product_catalogue :: "env \<Rightarrow> string \<Rightarrow> string \<Rightarrow> error + catalogue" where
  "parse_product_catalogue e file filename =
     (case parse_file e filename file False of
        Inl err \<Rightarrow> Inl err
      | Inr (Catalogue c) \<Rightarrow>
          Inr (c\<lparr>cat_attachments :=
                   Some (AList.update filename (b64encode e file)
                          (case cat_attachments c of None \<Rightarrow> [] | Some a \<Rightarrow> a)),
                 cat_chatter_msg :=
                   Some (case cat_chatter_msg c of None \<Rightarrow> [] | Some m \<Rightarrow> m)\<rparr>)
      | Inr other \<Rightarrow> Inl (TypeError ''argument is not iterable''))"

section \<open>The import\<close>

text \<open>
  What \<^verbatim>\<open>import_button\<close> does to the outside, in the order it does it: a call of the
  partner matcher (with the partner type asked for), a job handed to the queue (the
  context key \<^verbatim>\<open>product_company_id\<close>, the products of the chunk, the seller id), and the
  record of the source document.
\<close>

datatype event =
    Resolve string
  | Delayed_job nat "parsed_product option list" nat
  | Post_create_or_update catalogue nat string

datatype action = Act_window_close

definition is_job :: "event \<Rightarrow> bool" where
  "is_job ev = (case ev of Delayed_job company chunk seller \<Rightarrow> True | _ \<Rightarrow> False)"

datatype onchange = No_action | Warning string

text \<open>
  \<^verbatim>\<open>product_file_change\<close>: the events and the result. \<open>No_action\<close> is the implicit
  \<^verbatim>\<open>return None\<close>, \<open>Warning f\<close> the dict \<^verbatim>\<open>{"warning": _unsupported_file_msg(f)}\<close>. The
  method calls \<^verbatim>\<open>_parse_file\<close> and nothing else: no matcher, no queue job, no record of a
  document, so it has no event on any path.
\<close>

definition product_file_change :: "env \<Rightarrow> wizard \<Rightarrow> event list \<times> (error + onchange)" where
  "product_file_change e self =
     (case product_file self of
        None \<Rightarrow> ([], Inr No_action)
      | Some file \<Rightarrow>
          if product_filename self = [] \<or> file = [] then ([], Inr No_action)
          else
            case parse_file e (product_filename self) (b64decode e file) True of
              Inl err \<Rightarrow> ([], Inl err)
            | Inr doc_type \<Rightarrow>
                if doc_type = Py_None then ([], Inr (Warning (product_filename self)))
                else ([], Inr No_action))"

text \<open>
  \<^verbatim>\<open>_get_company_id(catalogue)\<close>: the events, then the company id (\<open>0\<close> for \<^verbatim>\<open>False\<close>)
  and the catalogue, whose \<^verbatim>\<open>chatter_msg\<close> list the matcher may have appended to.
\<close>

definition get_company_id :: "env \<Rightarrow> catalogue \<Rightarrow> event list \<times> (error + nat \<times> catalogue)" where
  "get_company_id e c =
     (case cat_company c of
        None \<Rightarrow> ([], Inr (0, c))
      | Some company_vals \<Rightarrow>
          if company_vals = [] then ([], Inr (0, c))
          else
            case cat_chatter_msg c of
              None \<Rightarrow> ([], Inl (KeyError ''chatter_msg''))
            | Some chatter \<Rightarrow>
                (case match_partner e company_vals chatter
                        \<lparr>partner_type = ''contact'', domain_is_company = True,
                         raise_exception = Some False\<rparr> of
                   Inl err \<Rightarrow> ([Resolve ''contact''], Inl err)
                 | Inr (part, chatter1) \<Rightarrow>
                     if part = 0
                     then ([Resolve ''contact''], Inr (0, c\<lparr>cat_chatter_msg := Some chatter1\<rparr>))
                     else ([Resolve ''contact''],
                           Inr (company_search e part, c\<lparr>cat_chatter_msg := Some chatter1\<rparr>))))"

text \<open>\<^verbatim>\<open>_get_seller(catalogue)\<close>: \<^verbatim>\<open>raise_exception\<close> is left to the matcher's default.\<close>

definition get_seller :: "env \<Rightarrow> catalogue \<Rightarrow> event list \<times> (error + nat \<times> catalogue)" where
  "get_seller e c =
     (case cat_chatter_msg c of
        None \<Rightarrow> ([], Inl (KeyError ''chatter_msg''))
      | Some chatter \<Rightarrow>
          (case match_partner e (cat_seller c) chatter
                  \<lparr>partner_type = ''supplier'', domain_is_company = False,
                   raise_exception = None\<rparr> of
             Inl err \<Rightarrow> ([Resolve ''supplier''], Inl err)
           | Inr (seller, chatter1) \<Rightarrow>
               ([Resolve ''supplier''], Inr (seller, c\<lparr>cat_chatter_msg := Some chatter1\<rparr>))))"

text \<open>
  \<^verbatim>\<open>import_button(chunk_size=CHUNK_SIZE)\<close> on one wizard record: the events up to the
  return or the exception, and the result.
\<close>

definition import_button :: "env \<Rightarrow> wizard \<Rightarrow> nat \<Rightarrow> event list \<times> (error + action)" where
  "import_button e self chunk_size =
     (case product_file self of
        None \<Rightarrow> ([], Inl (TypeError ''argument should be a bytes-like object''))
      | Some file \<Rightarrow>
          case parse_product_catalogue e (b64decode e file) (product_filename self) of
            Inl err \<Rightarrow> ([], Inl err)
          | Inr catalogue \<Rightarrow>
              case cat_products catalogue of
                None \<Rightarrow> ([], Inl (UserError No_product_in_catalogue))
              | Some prods \<Rightarrow>
                  if prods = [] then ([], Inl (UserError No_product_in_catalogue))
                  else
                    case get_company_id e catalogue of
                      (ev1, Inl err) \<Rightarrow> (ev1, Inl err)
                    | (ev1, Inr (company_id, catalogue1)) \<Rightarrow>
                        case get_seller e catalogue1 of
                          (ev2, Inl err) \<Rightarrow> (ev1 @ ev2, Inl err)
                        | (ev2, Inr (seller, catalogue2)) \<Rightarrow>
                            (ev1 @ ev2
                               @ map (\<lambda>chunk. Delayed_job company_id chunk seller)
                                   (import_chunks chunk_size prods)
                               @ [Post_create_or_update catalogue2 seller (product_filename self)],
                             Inr Act_window_close))"

text \<open>
  Modelled from the spec: the contract of \<^verbatim>\<open>_match_partner\<close>, a method of
  \<^verbatim>\<open>business.document.import\<close> that is not in this module. The Reference Resolver
  "optionally raises when resolution is required but fails" (its flag \<^verbatim>\<open>raiseOnFailure\<close>):
  unless \<^verbatim>\<open>raise_exception=False\<close> is passed, a call that finds no partner raises and
  does not return an empty recordset.
\<close>

definition raises_on_failure :: "env \<Rightarrow> bool" where
  "raises_on_failure e \<longleftrightarrow>
     (\<forall>ref ch kw ch'. raise_exception kw \<noteq> Some False
        \<longrightarrow> match_partner e ref ch kw \<noteq> Inr (0, ch'))"

text \<open>
  The offers that the store holds for the product with a given id (\<^verbatim>\<open>browse(id).seller_ids\<close>),
  and an offer after the writes of a reconciliation: ended yesterday when it conflicts.
\<close>

definition end_conflicting :: "date \<Rightarrow> seller_info \<Rightarrow> supplierinfo \<Rightarrow> supplierinfo" where
  "end_conflicting today si s =
     (if conflicting today si s then s\<lparr>s_date_end := Some (today - 1)\<rparr> else s)"

definition offers_by_id :: "nat \<Rightarrow> db \<Rightarrow> supplierinfo list" where
  "offers_by_id i d =
     (case find (\<lambda>p. p_id p = i) (db_products d) of
        None \<Rightarrow> []
      | Some p \<Rightarrow> p_seller_ids p)"

section \<open>Example data\<close>

definition line_123 :: parsed_product where
  "line_123 = \<lparr>pp_barcode = Some ''123'', pp_code = Some ''A-123'', pp_name = ''Widget'',
     pp_description = None, pp_uom = ''C62'', pp_currency = ''EUR'', pp_price = 12,
     pp_min_qty = 1, pp_product_code = PyStr ''W-123'', pp_sale_delay = None,
     pp_active = None\<rparr>"

definition candidate_12 :: seller_info where
  "candidate_12 = \<lparr>si_name = 7, si_product_code = PyStr ''W-123'', si_price = 12,
     si_currency_id = 1, si_min_qty = 1, si_company_id = 0, si_delay = 0,
     si_date_start = None\<rparr>"

definition offer_at :: "nat \<Rightarrow> rat \<Rightarrow> supplierinfo" where
  "offer_at i price = \<lparr>s_id = i, s_name = 7, s_company_id = 0, s_date_start = None,
     s_date_end = None, s_product_code = PyStr ''W-123'', s_min_qty = 1, s_price = price,
     s_currency_id = 1, s_delay = 0\<rparr>"

definition product_123 :: "supplierinfo list \<Rightarrow> product" where
  "product_123 offers = \<lparr>p_id = 5, p_active = True, p_default_code = Some ''A-123'',
     p_barcode = Some ''123'', p_name = ''Widget'', p_description = None,
     p_type = ''product'', p_uom_id = 3, p_uom_po_id = 3, p_company_id = 0,
     p_seller_ids = offers\<rparr>"

definition mixed_offers :: "supplierinfo list" where
  "mixed_offers = [(offer_at 1 10)\<lparr>s_name := 8\<rparr>, (offer_at 2 10)\<lparr>s_company_id := 3\<rparr>,
     (offer_at 3 10)\<lparr>s_date_end := Some 737990\<rparr>, offer_at 4 10]"

definition env0 :: env where
  "env0 = \<lparr>match_uom = (\<lambda>r ch. Inr (3, ch)),
     match_currency = (\<lambda>r ch. Inr (1, ch)),
     match_partner = (\<lambda>r ch kw.
        if r = ''Catalogue Vendor'' then Inr (7, ch)
        else if raise_exception kw = Some False then Inr (0, ch)
        else Inl (UserError (Resolver_message ''no partner found''))),
     company_search = (\<lambda>i. 0),
     b64decode = (\<lambda>x. x),
     b64encode = (\<lambda>x. x),
     fromstring = (\<lambda>x. if x = ''<catalogue/>'' then Some (Element ''catalogue'' []) else None),
     parse_xml_catalogue = parse_xml_catalogue_base\<rparr>"

definition catalogue_of :: "parsed_product list \<Rightarrow> string \<Rightarrow> catalogue" where
  "catalogue_of ps seller = \<lparr>cat_products = Some ps, cat_seller = seller,
     cat_company = None, cat_chatter_msg = None, cat_attachments = None\<rparr>"

definition env_with :: "catalogue \<Rightarrow> env" where
  "env_with c = env0\<lparr>parse_xml_catalogue :=
     (\<lambda>x detect. if detect then Inr (Doc_type ''catalogue'') else Inr (Catalogue c))\<rparr>"

definition wizard0 :: wizard where
  "wizard0 = \<lparr>product_file = Some ''<catalogue/>'', product_filename = ''catalogue.xml''\<rparr>"

definition db0 :: db where
  "db0 = \<lparr>db_products = [(product_123 [offer_at 1 10])\<lparr>p_active := False\<rparr>], db_next_id = 10\<rparr>"

definition stored :: "parsed_product list \<Rightarrow> string \<Rightarrow> catalogue" where
  "stored ps seller = \<lparr>cat_products = Some ps, cat_seller = seller,
     cat_company = None, cat_chatter_msg = Some [],
     cat_attachments = Some [(''catalogue.xml'', ''<catalogue/>'')]\<rparr>"

definition env_none :: env where
  "env_none = env0\<lparr>parse_xml_catalogue := (\<lambda>x detect. Inr Py_None)\<rparr>"

definition db1 :: db where
  "db1 = \<lparr>db_products = [product_123 [offer_at 1 12, offer_at 2 10]], db_next_id = 10\<rparr>"

definition vals1 :: product_vals where
  "vals1 = \<lparr>pv_active = True, pv_default_code = Some ''A-123'', pv_barcode = Some ''123'',
     pv_name = ''Widget'', pv_description = None, pv_type = ''product'', pv_uom_id = 3,
     pv_uom_po_id = 3, pv_company_id = 0,
     pv_seller_ids = prepare_supplierinfo 738000 candidate_12
                       (Some (product_123 [offer_at 1 12, offer_at 2 10])),
     pv_recordset = Some (product_123 [offer_at 1 12, offer_at 2 10])\<rparr>"

section \<open>Properties of the chunking\<close>

lemma zip_longest_unfold:
  "0 < n \<Longrightarrow> xs \<noteq> [] \<Longrightarrow>
   zip_longest n xs =
     (map Some (take n xs) @ replicate (n - length (take n xs)) None) # zip_longest n (drop n xs)"
  by (subst zip_longest.simps) simp

lemma zip_longest_Nil [simp]: "zip_longest n [] = []"
  by (subst zip_longest.simps) simp

lemma zip_longest_zero [simp]: "zip_longest 0 xs = []"
  by (subst zip_longest.simps) simp

lemma chunk_products_full:
  assumes "0 < n" "n \<le> length xs"
  shows "chunk_products (map Some (take n xs)) = map Some (take n xs)"
proof -
  from assms have ne: "take n xs \<noteq> []" by auto
  have "last (map Some (take n xs)) \<noteq> None"
    using ne by (simp add: last_map)
  then show ?thesis
    by (simp add: chunk_products_def)
qed

lemma filter_truthy_Some: "filter truthy (map Some ys) = map Some ys"
  by (induction ys) auto

lemma filter_truthy_None: "filter truthy (replicate k None) = []"
  by (induction k) auto

lemma chunk_products_partial:
  assumes "length xs < n"
  shows "chunk_products (map Some xs @ replicate (n - length xs) None) = map Some xs"
proof -
  from assms have k: "0 < n - length xs" by simp
  then have "last (map Some xs @ replicate (n - length xs) None) = None"
    by (simp add: last_append)
  then show ?thesis
    by (simp add: chunk_products_def filter_truthy_Some filter_truthy_None)
qed

text \<open>The chunks of a non-empty list, by the size of what is left.\<close>

lemma import_chunks_step:
  assumes "0 < c" "xs \<noteq> []"
  shows "import_chunks c xs =
           (if c \<le> length xs then map Some (take c xs) # import_chunks c (drop c xs)
            else [map Some xs])"
proof (cases "c \<le> length xs")
  case True
  then show ?thesis
    using assms by (simp add: import_chunks_def zip_longest_unfold chunk_products_full)
next
  case False
  then have lt: "length xs < c" by simp
  then have "drop c xs = []" by simp
  then show ?thesis
    using assms lt False
    by (simp add: import_chunks_def zip_longest_unfold chunk_products_partial)
qed

lemma import_chunks_Nil [simp]: "import_chunks c [] = []"
  by (simp add: import_chunks_def)

lemma concat_import_chunks:
  "0 < c \<Longrightarrow> concat (import_chunks c xs) = map Some xs"
proof (induction "length xs" arbitrary: xs rule: less_induct)
  case less
  show ?case
  proof (cases "xs = []")
    case True
    then show ?thesis by simp
  next
    case False
    show ?thesis
    proof (cases "c \<le> length xs")
      case True
      with False less.prems have "length (drop c xs) < length xs" by simp
      then have "concat (import_chunks c (drop c xs)) = map Some (drop c xs)"
        using less.hyps less.prems by blast
      then have "concat (import_chunks c xs) = map Some (take c xs) @ map Some (drop c xs)"
        using import_chunks_step [OF less.prems False] True by simp
      then show ?thesis
        by (simp flip: map_append)
    next
      case False': False
      then show ?thesis
        using import_chunks_step [OF less.prems False] by simp
    qed
  qed
qed

lemma ceil_div_Suc:
  fixes c n :: nat
  assumes "0 < c" "0 < n"
  shows "(n + c - 1) div c = Suc ((n - 1) div c)"
proof -
  from assms(2) obtain k where k: "n = Suc k"
    by (cases n) auto
  have "(k + c) div c = Suc (k div c)"
    using assms(1) by simp
  then show ?thesis
    by (simp add: k)
qed

lemma ceil_div_step:
  fixes c n :: nat
  assumes "0 < c" "c \<le> n"
  shows "(n + c - 1) div c = Suc ((n - c + c - 1) div c)"
proof -
  have "0 < n" using assms by simp
  moreover have "n - c + c = n" using assms by simp
  ultimately show ?thesis
    using ceil_div_Suc [OF assms(1), of n] by simp
qed

lemma ceil_div_last:
  fixes c n :: nat
  assumes "0 < n" "n < c"
  shows "(n + c - 1) div c = 1"
proof -
  have "0 < c" using assms by simp
  moreover have "(n - 1) div c = 0" using assms by simp
  ultimately show ?thesis
    using ceil_div_Suc [of c n] assms by simp
qed

lemma ceil_div_ceiling:
  fixes c n :: nat
  assumes "0 < c"
  shows "(n + c - 1) div c = nat \<lceil>real n / real c\<rceil>"
proof -
  define k where "k = n div c"
  define r where "r = n mod c"
  have n: "n = k * c + r" and r: "r < c"
    using assms by (simp_all add: k_def r_def)
  show ?thesis
  proof (cases "r = 0")
    case True
    then have nk: "n = k * c" using n by simp
    have g: "(j * c + m) div c = j" if "m < c" for j m
      using that by simp
    have "(k * c + (c - 1)) div c = k"
      using assms by (intro g) simp
    moreover have "n + c - 1 = k * c + (c - 1)"
      using assms nk by simp
    ultimately have d: "(n + c - 1) div c = k" by simp
    have "real n / real c = real k"
      using assms nk by simp
    then have "nat \<lceil>real n / real c\<rceil> = k" by simp
    with d show ?thesis by simp
  next
    case False
    have g: "(j * c + m) div c = j" if "m < c" for j m
      using that by simp
    have "(Suc k * c + (r - 1)) div c = Suc k"
      using r by (intro g) simp
    moreover have "n + c - 1 = Suc k * c + (r - 1)"
      using False n by simp
    ultimately have d: "(n + c - 1) div c = Suc k" by simp
    have lo: "real k < real n / real c"
    proof -
      have "k * c < n" using False n by simp
      then have "real (k * c) < real n" by (simp only: of_nat_less_iff)
      then have "real k * real c < real n" by simp
      then show ?thesis using assms by (simp add: pos_less_divide_eq)
    qed
    have hi: "real n / real c \<le> real k + 1"
    proof -
      have "n \<le> Suc k * c" using r n by simp
      then have "real n \<le> real (Suc k * c)" by (simp only: of_nat_le_iff)
      then have "real n \<le> (real k + 1) * real c" by (simp add: algebra_simps)
      then show ?thesis using assms by (simp add: pos_divide_le_eq)
    qed
    have "\<lceil>real n / real c\<rceil> = int k + 1"
      using lo hi by (intro ceiling_eq) simp_all
    then have "nat \<lceil>real n / real c\<rceil> = Suc k" by simp
    with d show ?thesis by simp
  qed
qed

lemma length_import_chunks:
  "0 < c \<Longrightarrow> length (import_chunks c xs) = (length xs + c - 1) div c"
proof (induction "length xs" arbitrary: xs rule: less_induct)
  case less
  show ?case
  proof (cases "xs = []")
    case True
    then show ?thesis using less.prems by simp
  next
    case False
    show ?thesis
    proof (cases "c \<le> length xs")
      case True
      with False less.prems have "length (drop c xs) < length xs" by simp
      then have "length (import_chunks c (drop c xs)) = (length (drop c xs) + c - 1) div c"
        using less.hyps less.prems by blast
      then have "length (import_chunks c xs) = Suc ((length xs - c + c - 1) div c)"
        using import_chunks_step [OF less.prems False] True by simp
      then show ?thesis
        using ceil_div_step [OF less.prems True] by simp
    next
      case False': False
      then have "length xs < c" "0 < length xs"
        using False by auto
      then have "(length xs + c - 1) div c = 1"
        using ceil_div_last by blast
      then show ?thesis
        using import_chunks_step [OF less.prems False] False' by simp
    qed
  qed
qed

lemma import_chunks_sizes:
  "0 < c \<Longrightarrow> ch \<in> set (import_chunks c xs) \<Longrightarrow>
   1 \<le> length ch \<and> length ch \<le> c \<and> None \<notin> set ch"
proof (induction "length xs" arbitrary: xs rule: less_induct)
  case less
  show ?case
  proof (cases "xs = []")
    case True
    then show ?thesis using less.prems by simp
  next
    case False
    note step = import_chunks_step [OF less.prems(1) False]
    show ?thesis
    proof (cases "c \<le> length xs")
      case True
      with False less.prems have smaller: "length (drop c xs) < length xs" by simp
      from less.prems(2) step True
      consider "ch = map Some (take c xs)" | "ch \<in> set (import_chunks c (drop c xs))"
        by auto
      then show ?thesis
      proof cases
        case 1
        then show ?thesis using True less.prems(1) by auto
      next
        case 2
        then show ?thesis using less.hyps [OF smaller less.prems(1)] by blast
      qed
    next
      case False': False
      then have "ch = map Some xs"
        using less.prems(2) step by simp
      then show ?thesis
        using False False' by (auto simp: Suc_le_eq)
    qed
  qed
qed

lemma import_chunks_butlast:
  "0 < c \<Longrightarrow> ch \<in> set (butlast (import_chunks c xs)) \<Longrightarrow> length ch = c"
proof (induction "length xs" arbitrary: xs rule: less_induct)
  case less
  show ?case
  proof (cases "xs = []")
    case True
    then show ?thesis using less.prems by simp
  next
    case False
    note step = import_chunks_step [OF less.prems(1) False]
    show ?thesis
    proof (cases "c \<le> length xs")
      case True
      with False less.prems have smaller: "length (drop c xs) < length xs" by simp
      from less.prems(2) step True
      have "ch \<in> set (butlast (map Some (take c xs) # import_chunks c (drop c xs)))"
        by simp
      then consider "ch = map Some (take c xs)"
        | "ch \<in> set (butlast (import_chunks c (drop c xs)))"
        by (auto split: if_splits)
      then show ?thesis
      proof cases
        case 1
        then show ?thesis using True by simp
      next
        case 2
        then show ?thesis using less.hyps [OF smaller less.prems(1)] by blast
      qed
    next
      case False': False
      then show ?thesis
        using less.prems(2) step by simp
    qed
  qed
qed

text \<open>
  C1. For a product list of length \<open>N\<close> and a chunk size \<open>C > 0\<close>, the chunking of
  \<^verbatim>\<open>import_button\<close> yields \<open>ceil(N/C)\<close> chunks, which is \<open>(N + C - 1) div C\<close> on the
  naturals; every chunk has between \<open>1\<close> and \<open>C\<close> entries and holds no \<^verbatim>\<open>None\<close>
  placeholder; every chunk but the last has exactly \<open>C\<close> entries; and the chunks, put
  one after the other in dispatch order, are the product list.
\<close>

theorem import_button_chunking:
  assumes "0 < chunk_size"
  shows "length (import_chunks chunk_size products)
           = nat \<lceil>real (length products) / real chunk_size\<rceil>
         \<and> length (import_chunks chunk_size products)
           = (length products + chunk_size - 1) div chunk_size
         \<and> (\<forall>ch \<in> set (import_chunks chunk_size products).
               1 \<le> length ch \<and> length ch \<le> chunk_size \<and> None \<notin> set ch)
         \<and> (\<forall>ch \<in> set (butlast (import_chunks chunk_size products)). length ch = chunk_size)
         \<and> concat (import_chunks chunk_size products) = map Some products"
proof (intro conjI ballI)
  show "length (import_chunks chunk_size products)
          = (length products + chunk_size - 1) div chunk_size"
    using assms by (rule length_import_chunks)
  then show "length (import_chunks chunk_size products)
          = nat \<lceil>real (length products) / real chunk_size\<rceil>"
    using ceil_div_ceiling [OF assms] by simp
next
  fix ch assume "ch \<in> set (import_chunks chunk_size products)"
  with assms have *: "1 \<le> length ch \<and> length ch \<le> chunk_size \<and> None \<notin> set ch"
    by (rule import_chunks_sizes)
  from * show "1 \<le> length ch" by simp
  from * show "length ch \<le> chunk_size" by simp
  from * show "None \<notin> set ch" by simp
next
  fix ch assume "ch \<in> set (butlast (import_chunks chunk_size products))"
  with assms show "length ch = chunk_size"
    by (rule import_chunks_butlast)
next
  show "concat (import_chunks chunk_size products) = map Some products"
    using assms by (rule concat_import_chunks)
qed

theorem import_button_chunking_witness:
  "0 < CHUNK_SIZE
   \<and> length (import_chunks CHUNK_SIZE (replicate 85 line_123)) = 3
   \<and> concat (import_chunks CHUNK_SIZE (replicate 85 line_123)) = replicate 85 (Some line_123)"
  using import_button_chunking [of CHUNK_SIZE "replicate 85 line_123"]
  by (simp add: CHUNK_SIZE_def)

section \<open>Properties of the reconciliation\<close>

lemma considered_iff:
  "considered today seller_info s_info \<longleftrightarrow>
     \<not> other_seller seller_info s_info \<and> \<not> other_company seller_info s_info
     \<and> \<not> ended_before today s_info"
  by (auto simp: considered_def other_seller_def other_company_def ended_before_def
      split: option.splits)

lemma terminate_previous_result:
  "snd (terminate_previous today y seller_info offers (seller_id, result)) =
     result @ map (\<lambda>s. (1, s_id s, Date_end y)) (filter (conflicting today seller_info) offers)"
  by (induction offers arbitrary: seller_id result)
     (simp_all add: conflicting_def considered_iff)

lemma terminate_previous_seller_id:
  "fst (terminate_previous today y seller_info offers (seller_id, result)) =
     (case filter (\<lambda>s. considered today seller_info s \<and> same_fields seller_info s) offers of
        [] \<Rightarrow> seller_id
      | s # ss \<Rightarrow> s_id (last (s # ss)))"
proof (induction offers arbitrary: seller_id result)
  case Nil
  then show ?case by simp
next
  case (Cons a offers)
  show ?case
  proof (cases "considered today seller_info a \<and> same_fields seller_info a")
    case True
    then show ?thesis
      using Cons.IH [of "s_id a" result]
      by (simp add: considered_iff split: list.splits)
  next
    case False
    then show ?thesis
      using Cons.IH by (auto simp: considered_iff)
  qed
qed

text \<open>The commands of \<^verbatim>\<open>_prepare_supplierinfo\<close>, in closed form.\<close>

lemma prepare_supplierinfo_eq:
  "prepare_supplierinfo today seller_info product =
     map (\<lambda>s. (1, s_id s, Date_end (today - 1)))
       (filter (conflicting today seller_info) (offers_of product))
     @ (if (case filter (\<lambda>s. considered today seller_info s \<and> same_fields seller_info s)
                   (offers_of product) of
              [] \<Rightarrow> 0
            | s # ss \<Rightarrow> s_id (last (s # ss))) = 0
        then [(0, 0, Seller_info (setdefault_date_start today seller_info))]
        else [])"
proof (cases product)
  case None
  then show ?thesis
    by (simp add: prepare_supplierinfo_def offers_of_def)
next
  case (Some p)
  obtain i r where t: "terminate_previous today (today - 1) seller_info (p_seller_ids p) (0, [])
      = (i, r)"
    by (cases "terminate_previous today (today - 1) seller_info (p_seller_ids p) (0, [])")
  from t have r: "r = map (\<lambda>s. (1, s_id s, Date_end (today - 1)))
       (filter (conflicting today seller_info) (p_seller_ids p))"
    using terminate_previous_result [of today "today - 1" seller_info "p_seller_ids p" 0 "[]"]
    by simp
  from t have i: "i = (case filter (\<lambda>s. considered today seller_info s \<and> same_fields seller_info s)
                   (p_seller_ids p) of
              [] \<Rightarrow> 0
            | s # ss \<Rightarrow> s_id (last (s # ss)))"
    using terminate_previous_seller_id [of today "today - 1" seller_info "p_seller_ids p" 0 "[]"]
    by simp
  show ?thesis
    unfolding prepare_supplierinfo_def Some offers_of_def Let_def option.case t prod.case
    using r i by simp
qed

lemma setdefault_date_start_eq:
  "setdefault_date_start today seller_info =
     seller_info\<lparr>si_date_start :=
       Some (case si_date_start seller_info of None \<Rightarrow> today | Some d \<Rightarrow> d)\<rparr>"
  by (simp add: setdefault_date_start_def split: option.splits)

lemma update_in_prepare_supplierinfo:
  "(1, i, v) \<in> set (prepare_supplierinfo today seller_info product) \<longleftrightarrow>
     v = Date_end (today - 1)
     \<and> (\<exists>s \<in> set (offers_of product). conflicting today seller_info s \<and> s_id s = i)"
  by (auto simp: prepare_supplierinfo_eq)

lemma create_in_prepare_supplierinfo:
  assumes "\<forall>s \<in> set (offers_of product). considered today seller_info s
             \<longrightarrow> \<not> same_fields seller_info s"
  shows "(0, 0, Seller_info (setdefault_date_start today seller_info))
           \<in> set (prepare_supplierinfo today seller_info product)"
proof -
  have "filter (\<lambda>s. considered today seller_info s \<and> same_fields seller_info s)
          (offers_of product) = []"
    using assms by (auto simp: filter_empty_conv)
  then show ?thesis
    by (simp add: prepare_supplierinfo_eq)
qed

lemma no_create_in_prepare_supplierinfo:
  assumes "s \<in> set (offers_of product)" "considered today seller_info s"
    "same_fields seller_info s" "\<forall>s' \<in> set (offers_of product). s_id s' \<noteq> 0"
  shows "prepare_supplierinfo today seller_info product =
     map (\<lambda>s. (1, s_id s, Date_end (today - 1)))
       (filter (conflicting today seller_info) (offers_of product))"
proof -
  let ?kept = "filter (\<lambda>s. considered today seller_info s \<and> same_fields seller_info s)
          (offers_of product)"
  from assms(1-3) have "s \<in> set ?kept" by simp
  then obtain a as where k: "?kept = a # as"
    by (cases ?kept) auto
  have "last (a # as) \<in> set ?kept"
    unfolding k by (rule last_in_set) simp
  then have "last (a # as) \<in> set (offers_of product)" by simp
  with assms(4) have "s_id (last (a # as)) \<noteq> 0" by blast
  then show ?thesis
    by (simp add: prepare_supplierinfo_eq k)
qed

text \<open>
  C2. Every existing offer that conflicts with the candidate (same seller, company the
  candidate's or unset, not ended before today, not field-identical) gets the write
  \<^verbatim>\<open>(1, id, {"date_end": today - 1 day})\<close>, and no write carries another end date. When no
  considered offer is field-identical, the commands hold the create
  \<^verbatim>\<open>(0, 0, seller_info)\<close> whose \<^verbatim>\<open>date_start\<close> is today if the candidate gave none and the
  candidate's own start date otherwise.
\<close>

theorem offer_termination_window:
  "(\<forall>s \<in> set (offers_of product). conflicting today seller_info s \<longrightarrow>
      (1, s_id s, Date_end (today - 1)) \<in> set (prepare_supplierinfo today seller_info product))
   \<and> (\<forall>i v. (1, i, v) \<in> set (prepare_supplierinfo today seller_info product)
         \<longrightarrow> v = Date_end (today - 1))
   \<and> ((\<forall>s \<in> set (offers_of product). considered today seller_info s
          \<longrightarrow> \<not> same_fields seller_info s) \<longrightarrow>
      (0, 0, Seller_info (seller_info\<lparr>si_date_start :=
          Some (case si_date_start seller_info of None \<Rightarrow> today | Some d \<Rightarrow> d)\<rparr>))
        \<in> set (prepare_supplierinfo today seller_info product))"
proof (intro conjI ballI allI impI)
  fix s
  assume "s \<in> set (offers_of product)" "conflicting today seller_info s"
  then show "(1, s_id s, Date_end (today - 1))
      \<in> set (prepare_supplierinfo today seller_info product)"
    unfolding update_in_prepare_supplierinfo by blast
next
  fix i v
  assume "(1, i, v) \<in> set (prepare_supplierinfo today seller_info product)"
  then show "v = Date_end (today - 1)"
    unfolding update_in_prepare_supplierinfo by blast
next
  assume "\<forall>s \<in> set (offers_of product). considered today seller_info s
          \<longrightarrow> \<not> same_fields seller_info s"
  then have "(0, 0, Seller_info (setdefault_date_start today seller_info))
           \<in> set (prepare_supplierinfo today seller_info product)"
    by (rule create_in_prepare_supplierinfo)
  then show "(0, 0, Seller_info (seller_info\<lparr>si_date_start :=
          Some (case si_date_start seller_info of None \<Rightarrow> today | Some d \<Rightarrow> d)\<rparr>))
        \<in> set (prepare_supplierinfo today seller_info product)"
    by (simp only: setdefault_date_start_eq)
qed

theorem offer_termination_window_witness:
  "conflicting 738000 candidate_12 (offer_at 1 10)
   \<and> (1, 1, Date_end 737999)
        \<in> set (prepare_supplierinfo 738000 candidate_12 (Some (product_123 [offer_at 1 10])))
   \<and> (0, 0, Seller_info (candidate_12\<lparr>si_date_start := Some 738000\<rparr>))
        \<in> set (prepare_supplierinfo 738000 candidate_12 (Some (product_123 [offer_at 1 10])))"
proof -
  have c: "conflicting 738000 candidate_12 (offer_at 1 10)"
    by (simp add: conflicting_def considered_def same_fields_def candidate_12_def offer_at_def)
  have o: "offers_of (Some (product_123 [offer_at 1 10])) = [offer_at 1 10]"
    by (simp add: offers_of_def product_123_def)
  have i: "s_id (offer_at 1 10) = 1" "si_date_start candidate_12 = None"
    by (simp_all add: offer_at_def candidate_12_def)
  from offer_termination_window [of "Some (product_123 [offer_at 1 10])" 738000 candidate_12]
  show ?thesis
    unfolding o using c i by (simp add: conflicting_def)
qed

text \<open>
  C9. An offer of another seller, an offer of a company that is neither the candidate's
  nor unset, and an offer ended before today get no write. An offer of the candidate's
  seller whose company is the candidate's or unset, and that has no end date or ends
  today or later, is considered: it is field-identical to the candidate or it gets the
  write that ends it yesterday. One id per stored record.
\<close>

theorem reconcile_scope:
  assumes "distinct (map s_id (offers_of product))"
    and "s \<in> set (offers_of product)"
  shows "((s_name s \<noteq> si_name seller_info
           \<or> (s_company_id s \<noteq> si_company_id seller_info \<and> s_company_id s \<noteq> 0)
           \<or> (\<exists>d. s_date_end s = Some d \<and> d < today))
          \<longrightarrow> (\<forall>c \<in> set (prepare_supplierinfo today seller_info product).
                 is_create c \<or> fst (snd c) \<noteq> s_id s))
    \<and> ((s_name s = si_name seller_info
           \<and> (s_company_id s = si_company_id seller_info \<or> s_company_id s = 0)
           \<and> (s_date_end s = None \<or> (\<exists>d. s_date_end s = Some d \<and> today \<le> d)))
          \<longrightarrow> (same_fields seller_info s
               \<or> (1, s_id s, Date_end (today - 1))
                    \<in> set (prepare_supplierinfo today seller_info product)))"
proof (intro conjI impI ballI)
  fix c
  assume out: "s_name s \<noteq> si_name seller_info
           \<or> (s_company_id s \<noteq> si_company_id seller_info \<and> s_company_id s \<noteq> 0)
           \<or> (\<exists>d. s_date_end s = Some d \<and> d < today)"
    and c: "c \<in> set (prepare_supplierinfo today seller_info product)"
  from out have nc: "\<not> considered today seller_info s"
    by (auto simp: considered_def)
  show "is_create c \<or> fst (snd c) \<noteq> s_id s"
  proof (cases "is_create c")
    case True
    then show ?thesis by simp
  next
    case False
    with c obtain s' where s': "s' \<in> set (offers_of product)"
        "conflicting today seller_info s'" "c = (1, s_id s', Date_end (today - 1))"
      by (auto simp: prepare_supplierinfo_eq is_create_def split: if_splits)
    have "s_id s' \<noteq> s_id s"
    proof
      assume "s_id s' = s_id s"
      with s'(1) assms have "s' = s"
        by (meson distinct_map inj_onD)
      with s'(2) nc show False
        by (simp add: conflicting_def)
    qed
    with s'(3) show ?thesis by simp
  qed
next
  assume "s_name s = si_name seller_info
           \<and> (s_company_id s = si_company_id seller_info \<or> s_company_id s = 0)
           \<and> (s_date_end s = None \<or> (\<exists>d. s_date_end s = Some d \<and> today \<le> d))"
  then have "considered today seller_info s"
    by (simp add: considered_def)
  then show "same_fields seller_info s
               \<or> (1, s_id s, Date_end (today - 1))
                    \<in> set (prepare_supplierinfo today seller_info product)"
    unfolding update_in_prepare_supplierinfo using assms(2)
    by (auto simp: conflicting_def)
qed

theorem reconcile_scope_witness:
  "distinct (map s_id (offers_of (Some (product_123 mixed_offers))))
   \<and> s_name (mixed_offers ! 0) \<noteq> si_name candidate_12
   \<and> (1, 1, Date_end 737999)
        \<notin> set (prepare_supplierinfo 738000 candidate_12 (Some (product_123 mixed_offers)))
   \<and> \<not> same_fields candidate_12 (offer_at 4 10)
   \<and> (1, 4, Date_end 737999)
        \<in> set (prepare_supplierinfo 738000 candidate_12 (Some (product_123 mixed_offers)))"
proof -
  have o: "offers_of (Some (product_123 mixed_offers)) = mixed_offers"
    by (simp add: offers_of_def product_123_def)
  have d: "distinct (map s_id (offers_of (Some (product_123 mixed_offers))))"
    unfolding o by (simp add: mixed_offers_def offer_at_def)
  have m1: "(offer_at 1 10)\<lparr>s_name := 8\<rparr> \<in> set (offers_of (Some (product_123 mixed_offers)))"
    unfolding o by (simp add: mixed_offers_def)
  have m4: "offer_at 4 10 \<in> set (offers_of (Some (product_123 mixed_offers)))"
    unfolding o by (simp add: mixed_offers_def)
  have n1: "s_name (mixed_offers ! 0) \<noteq> si_name candidate_12"
    by (simp add: mixed_offers_def offer_at_def candidate_12_def)
  have n4: "\<not> same_fields candidate_12 (offer_at 4 10)"
    by (simp add: same_fields_def offer_at_def candidate_12_def)
  from reconcile_scope [OF d m1, of candidate_12 738000]
  have "\<forall>c \<in> set (prepare_supplierinfo 738000 candidate_12 (Some (product_123 mixed_offers))).
          is_create c \<or> fst (snd c) \<noteq> 1"
    by (simp add: offer_at_def candidate_12_def)
  then have a: "(1, 1, Date_end 737999)
        \<notin> set (prepare_supplierinfo 738000 candidate_12 (Some (product_123 mixed_offers)))"
    by (auto simp: is_create_def)
  from reconcile_scope [OF d m4, of candidate_12 738000] n4
  have b: "(1, 4, Date_end 737999)
        \<in> set (prepare_supplierinfo 738000 candidate_12 (Some (product_123 mixed_offers)))"
    by (simp add: offer_at_def candidate_12_def)
  from d n1 a n4 b show ?thesis by simp
qed

section \<open>Lemmas on the store and on the written commands\<close>

lemma supplierinfo_write_ids [simp]:
  "map p_id (db_products (supplierinfo_write i v d)) = map p_id (db_products d)"
  by (simp add: supplierinfo_write_def comp_def)

lemma supplierinfo_create_ids [simp]:
  "map p_id (db_products (supplierinfo_create v i d)) = map p_id (db_products d)"
  by (simp add: supplierinfo_create_def comp_def if_distrib cong: if_cong)

lemma product_write_ids [simp]:
  "map p_id (db_products (product_write i v d)) = map p_id (db_products d)"
  by (simp add: product_write_def comp_def if_distrib cong: if_cong)

lemma write_supplierinfo_ok:
  assumes "\<forall>c \<in> set cmds. is_update c \<or> is_create c"
  shows "\<exists>d'. write_supplierinfo cmds product_id d = Inr d'
           \<and> map p_id (db_products d') = map p_id (db_products d)"
  using assms
proof (induction cmds arbitrary: d)
  case Nil
  then show ?case by simp
next
  case (Cons c cmds)
  obtain command line_id vs where c: "c = (command, line_id, vs)"
    by (cases c)
  from Cons.prems have rest: "\<forall>c \<in> set cmds. is_update c \<or> is_create c"
    by simp
  from Cons.prems c consider "command = 1" | "command = 0" "command \<noteq> 1"
    by (auto simp: is_update_def is_create_def)
  then show ?case
  proof cases
    case 1
    then show ?thesis
      using Cons.IH [OF rest, of "supplierinfo_write line_id vs d"] c by simp
  next
    case 2
    then show ?thesis
      using Cons.IH [OF rest, of "supplierinfo_create vs product_id d"] c by simp
  qed
qed

lemma prepare_supplierinfo_commands:
  "c \<in> set (prepare_supplierinfo today seller_info product) \<Longrightarrow>
     (\<exists>s \<in> set (offers_of product). c = (1, s_id s, Date_end (today - 1)))
     \<or> c = (0, 0, Seller_info (setdefault_date_start today seller_info))"
  by (auto simp: prepare_supplierinfo_eq split: if_splits)

lemma prepare_supplierinfo_supported:
  "\<forall>c \<in> set (prepare_supplierinfo today seller_info product). is_update c \<or> is_create c"
  by (auto dest!: prepare_supplierinfo_commands simp: is_update_def is_create_def)

lemma prepare_product_eq:
  assumes "pp_barcode pp = Some b" "b \<noteq> []"
    and "match_uom e (pp_uom pp) chatter = Inr (uom, ch1)"
    and "match_currency e (pp_currency pp) ch1 = Inr (currency, ch2)"
  shows "prepare_product e d company today pp chatter seller =
     Inr (Some
           \<lparr>pv_active = (case pp_active pp of None \<Rightarrow> True | Some a \<Rightarrow> a),
            pv_default_code = pp_code pp,
            pv_barcode = Some b,
            pv_name = pp_name pp,
            pv_description = pp_description pp,
            pv_type = ''product'',
            pv_uom_id = uom,
            pv_uom_po_id = uom,
            pv_company_id = 0,
            pv_seller_ids =
              prepare_supplierinfo today
                \<lparr>si_name = (case seller of None \<Rightarrow> 0 | Some i \<Rightarrow> i),
                 si_product_code = pp_product_code pp,
                 si_price = pp_price pp,
                 si_currency_id = currency,
                 si_min_qty = pp_min_qty pp,
                 si_company_id = company,
                 si_delay = (case pp_sale_delay pp of None \<Rightarrow> 0 | Some n \<Rightarrow> n),
                 si_date_start = None\<rparr>
                (search_barcode False b (db_products d)),
            pv_recordset = search_barcode False b (db_products d)\<rparr>,
          ch2)"
  using assms by (simp add: prepare_product_def Let_def)

lemma prepare_product_Some:
  assumes "prepare_product e d company today pp chatter seller = Inr (Some vals, ch)"
  shows "\<exists>si. pv_seller_ids vals = prepare_supplierinfo today si (pv_recordset vals)"
proof -
  from assms obtain b where b: "pp_barcode pp = Some b" "b \<noteq> []"
    by (cases "pp_barcode pp") (auto simp: prepare_product_def split: if_splits)
  from assms b obtain uom ch1 where u: "match_uom e (pp_uom pp) chatter = Inr (uom, ch1)"
    by (cases "match_uom e (pp_uom pp) chatter") (auto simp: prepare_product_def)
  from assms b u obtain currency ch2
    where c: "match_currency e (pp_currency pp) ch1 = Inr (currency, ch2)"
    by (cases "match_currency e (pp_currency pp) ch1") (auto simp: prepare_product_def)
  from assms show ?thesis
    unfolding prepare_product_eq [OF b u c] by auto
qed

lemma create_update_product_ok:
  assumes "\<forall>c \<in> set (pv_seller_ids vals). is_update c \<or> is_create c"
  shows "\<exists>d' m. create_update_product d vals = Inr (d', m)"
proof (cases "pv_recordset vals")
  case None
  then show ?thesis
    by (simp add: create_update_product_def Let_def split: prod.splits)
next
  case (Some p)
  from write_supplierinfo_ok [OF assms, of "p_id p" d]
  obtain d' where "write_supplierinfo (pv_seller_ids vals) (p_id p) d = Inr d'"
    by blast
  then show ?thesis
    by (simp add: create_update_product_def Some)
qed

lemma search_barcode_all:
  "search_barcode False b ps = find (\<lambda>p. p_barcode p = Some b) ps"
  by (simp add: search_barcode_def)

lemma product_write_fields:
  assumes "r \<in> set (db_products (product_write i v d))" "p_id r = i"
  shows "p_name r = pv_name v \<and> p_default_code r = pv_default_code v
         \<and> p_barcode r = pv_barcode v \<and> p_active r = pv_active v"
proof -
  let ?f = "\<lambda>p. if p_id p = i
                then p\<lparr>p_active := pv_active v, p_default_code := pv_default_code v,
                       p_barcode := pv_barcode v, p_name := pv_name v,
                       p_description := pv_description v, p_type := pv_type v,
                       p_uom_id := pv_uom_id v, p_uom_po_id := pv_uom_po_id v,
                       p_company_id := pv_company_id v\<rparr>
                else p"
  from assms(1) obtain p where p: "p \<in> set (db_products d)" "r = ?f p"
    unfolding product_write_def by auto
  show ?thesis
  proof (cases "p_id p = i")
    case True
    with p(2) show ?thesis by simp
  next
    case False
    with p(2) assms(2) show ?thesis by simp
  qed
qed

lemma action_archive_length [simp]:
  "length (db_products (action_archive i d)) = length (db_products d)"
  by (simp add: action_archive_def)

lemma action_archive_last:
  assumes "db_products d \<noteq> []"
  shows "p_barcode (last (db_products (action_archive i d))) = p_barcode (last (db_products d))
         \<and> p_id (last (db_products (action_archive i d))) = p_id (last (db_products d))"
  using assms by (simp add: action_archive_def last_map)

lemma create_update_product_found:
  assumes "pv_recordset vals = Some q"
    and "\<forall>c \<in> set (pv_seller_ids vals). is_update c \<or> is_create c"
  shows "\<exists>d'. create_update_product d vals = Inr (d', Product_created_updated (p_id q))
           \<and> map p_id (db_products d') = map p_id (db_products d)
           \<and> (\<forall>r \<in> set (db_products d'). p_id r = p_id q \<longrightarrow>
                 p_name r = pv_name vals \<and> p_default_code r = pv_default_code vals
                 \<and> p_barcode r = pv_barcode vals \<and> p_active r = pv_active vals)"
proof -
  from write_supplierinfo_ok [OF assms(2), of "p_id q" d]
  obtain d1 where d1: "write_supplierinfo (pv_seller_ids vals) (p_id q) d = Inr d1"
      "map p_id (db_products d1) = map p_id (db_products d)"
    by blast
  have "create_update_product d vals
          = Inr (product_write (p_id q) vals d1, Product_created_updated (p_id q))"
    by (simp add: create_update_product_def assms(1) d1(1))
  moreover have "map p_id (db_products (product_write (p_id q) vals d1))
                   = map p_id (db_products d)"
    using d1(2) by simp
  moreover have "\<forall>r \<in> set (db_products (product_write (p_id q) vals d1)). p_id r = p_id q \<longrightarrow>
                 p_name r = pv_name vals \<and> p_default_code r = pv_default_code vals
                 \<and> p_barcode r = pv_barcode vals \<and> p_active r = pv_active vals"
    using product_write_fields by blast
  ultimately show ?thesis by blast
qed

lemma product_create_eq:
  "\<exists>offers n. product_create v d =
     (db_next_id d,
      d\<lparr>db_products := db_products d @
            [\<lparr>p_id = db_next_id d, p_active = True, p_default_code = pv_default_code v,
              p_barcode = pv_barcode v, p_name = pv_name v,
              p_description = pv_description v, p_type = pv_type v,
              p_uom_id = pv_uom_id v, p_uom_po_id = pv_uom_po_id v,
              p_company_id = pv_company_id v, p_seller_ids = offers\<rparr>],
        db_next_id := n\<rparr>)"
proof -
  obtain offers n where "one2many_commands (pv_seller_ids v) (Suc (db_next_id d)) [] = (offers, n)"
    by (cases "one2many_commands (pv_seller_ids v) (Suc (db_next_id d)) []")
  then have "product_create v d =
     (db_next_id d,
      d\<lparr>db_products := db_products d @
            [\<lparr>p_id = db_next_id d, p_active = True, p_default_code = pv_default_code v,
              p_barcode = pv_barcode v, p_name = pv_name v,
              p_description = pv_description v, p_type = pv_type v,
              p_uom_id = pv_uom_id v, p_uom_po_id = pv_uom_po_id v,
              p_company_id = pv_company_id v, p_seller_ids = offers\<rparr>],
        db_next_id := n\<rparr>)"
    by (simp add: product_create_def)
  then show ?thesis by blast
qed

lemma create_update_product_new:
  assumes "pv_recordset vals = None"
  shows "\<exists>d'. create_update_product d vals = Inr (d', Product_created_updated (db_next_id d))
           \<and> length (db_products d') = Suc (length (db_products d))
           \<and> p_id (last (db_products d')) = db_next_id d
           \<and> p_barcode (last (db_products d')) = pv_barcode vals"
proof -
  from product_create_eq [of vals d] obtain d1
    where c: "product_create vals d = (db_next_id d, d1)"
      and len: "length (db_products d1) = Suc (length (db_products d))"
      and la: "p_id (last (db_products d1)) = db_next_id d"
        "p_barcode (last (db_products d1)) = pv_barcode vals"
    by fastforce
  from len have ne: "db_products d1 \<noteq> []" by auto
  show ?thesis
  proof (cases "pv_active vals")
    case True
    then show ?thesis
      using c len la by (simp add: create_update_product_def assms)
  next
    case False
    then have "create_update_product d vals
      = Inr (action_archive (db_next_id d) d1, Product_created_updated (db_next_id d))"
      using c by (simp add: create_update_product_def assms)
    then show ?thesis
      using len la action_archive_last [OF ne, of "db_next_id d"] by simp
  qed
qed

section \<open>Properties of the product preparation and of the import\<close>

text \<open>
  C4. For a parsed line whose barcode is empty or absent, \<^verbatim>\<open>_prepare_product\<close> returns
  \<^verbatim>\<open>False\<close> and appends the message that names the line; the loop of
  \<^verbatim>\<open>_create_update_products\<close> then goes on with the store as it was, so the line gives
  no create and no update.
\<close>

theorem barcode_rejection:
  assumes "pp_barcode parsed_product = None \<or> pp_barcode parsed_product = Some []"
  shows "prepare_product e d company today parsed_product chatter_msg seller
           = Inr (None, chatter_msg @ [Cannot_import_product_without_barcode parsed_product])
    \<and> create_update_products_loop e company today seller (Some parsed_product # rest)
          (d, log_msgs)
        = create_update_products_loop e company today seller rest
            (d, log_msgs @ [Cannot_import_product_without_barcode parsed_product])
    \<and> create_update_products e company today d [Some parsed_product] seller_id
        = Inr (d, [Cannot_import_product_without_barcode parsed_product])"
proof -
  have p: "prepare_product e d company today parsed_product msgs sel
           = Inr (None, msgs @ [Cannot_import_product_without_barcode parsed_product])"
    for msgs sel
    using assms by (auto simp: prepare_product_def)
  show ?thesis
    by (simp add: p create_update_products_def)
qed

theorem barcode_rejection_witness:
  "pp_barcode (line_123\<lparr>pp_barcode := Some []\<rparr>) = Some []
   \<and> create_update_products env0 0 738000 db0 [Some (line_123\<lparr>pp_barcode := Some []\<rparr>)] 7
       = Inr (db0, [Cannot_import_product_without_barcode (line_123\<lparr>pp_barcode := Some []\<rparr>)])"
proof -
  have h: "pp_barcode (line_123\<lparr>pp_barcode := Some []\<rparr>) = None
           \<or> pp_barcode (line_123\<lparr>pp_barcode := Some []\<rparr>) = Some []"
    by simp
  from barcode_rejection [OF h, of env0 db0 0 738000 "[]" None "[]" "[]" 7]
  show ?thesis by simp
qed

text \<open>
  C6. When the parsed catalogue has no product (the list is empty, or the key is not
  there), \<^verbatim>\<open>import_button\<close> raises the user error "This catalogue doesn't have any
  product!" with no event before it: no call of the partner matcher, no job, no record of
  the source document.
\<close>

theorem empty_catalogue_aborts:
  assumes "product_file self = Some file"
    and "parse_product_catalogue e (b64decode e file) (product_filename self) = Inr catalogue"
    and "cat_products catalogue = None \<or> cat_products catalogue = Some []"
  shows "import_button e self chunk_size = ([], Inl (UserError No_product_in_catalogue))"
  using assms by (auto simp: import_button_def)

lemma parse_env_with:
  "parse_product_catalogue (env_with (catalogue_of ps seller))
     (b64decode (env_with (catalogue_of ps seller)) ''<catalogue/>'') ''catalogue.xml''
   = Inr (stored ps seller)"
  by (simp add: parse_product_catalogue_def parse_file_def parse_xml_def env_with_def env0_def
      catalogue_of_def stored_def)

theorem empty_catalogue_aborts_witness:
  "product_file wizard0 = Some ''<catalogue/>''
   \<and> cat_products (stored [] ''Catalogue Vendor'') = Some []
   \<and> import_button (env_with (catalogue_of [] ''Catalogue Vendor'')) wizard0 CHUNK_SIZE
       = ([], Inl (UserError No_product_in_catalogue))"
proof -
  have f: "product_file wizard0 = Some ''<catalogue/>''"
    by (simp add: wizard0_def)
  have p: "parse_product_catalogue (env_with (catalogue_of [] ''Catalogue Vendor''))
             (b64decode (env_with (catalogue_of [] ''Catalogue Vendor'')) ''<catalogue/>'')
             (product_filename wizard0)
           = Inr (stored [] ''Catalogue Vendor'')"
    using parse_env_with [of "[]" "''Catalogue Vendor''"] by (simp add: wizard0_def)
  have e: "cat_products (stored [] ''Catalogue Vendor'') = None
           \<or> cat_products (stored [] ''Catalogue Vendor'') = Some []"
    by (simp add: stored_def)
  have e': "cat_products (stored [] ''Catalogue Vendor'') = Some []"
    by (simp add: stored_def)
  from empty_catalogue_aborts [OF f p e, of CHUNK_SIZE] f e' show ?thesis by simp
qed

text \<open>
  C8. A line with a barcode is matched by the barcode alone: the recordset of
  \<^verbatim>\<open>_prepare_product\<close> is the first product of the store with that barcode, archived or
  not, whatever the names and codes. When a product carries the barcode it is the one
  written, and the store gets no new product; when none does, the recordset is empty and
  \<^verbatim>\<open>_create_update_product\<close> creates a product with that barcode.
\<close>

theorem product_matching:
  assumes "pp_barcode pp = Some b" and "b \<noteq> []"
    and "match_uom e (pp_uom pp) chatter = Inr (uom, ch1)"
    and "match_currency e (pp_currency pp) ch1 = Inr (currency, ch2)"
  shows "\<exists>vals. prepare_product e d company today pp chatter seller = Inr (Some vals, ch2)
    \<and> pv_recordset vals = find (\<lambda>p. p_barcode p = Some b) (db_products d)
    \<and> ((\<exists>p \<in> set (db_products d). p_barcode p = Some b) \<longrightarrow>
         (\<exists>q d'. pv_recordset vals = Some q \<and> q \<in> set (db_products d) \<and> p_barcode q = Some b
            \<and> create_update_product d vals = Inr (d', Product_created_updated (p_id q))
            \<and> map p_id (db_products d') = map p_id (db_products d)
            \<and> (\<forall>r \<in> set (db_products d'). p_id r = p_id q \<longrightarrow>
                  p_barcode r = Some b \<and> p_name r = pp_name pp
                  \<and> p_default_code r = pp_code pp)))
    \<and> ((\<forall>p \<in> set (db_products d). p_barcode p \<noteq> Some b) \<longrightarrow>
         pv_recordset vals = None
         \<and> (\<exists>d'. create_update_product d vals
                    = Inr (d', Product_created_updated (db_next_id d))
              \<and> length (db_products d') = Suc (length (db_products d))
              \<and> p_id (last (db_products d')) = db_next_id d
              \<and> p_barcode (last (db_products d')) = Some b))"
proof -
  note eq = prepare_product_eq [OF assms, of d company today seller]
  obtain vals where vals: "prepare_product e d company today pp chatter seller = Inr (Some vals, ch2)"
    and rs: "pv_recordset vals = search_barcode False b (db_products d)"
    and bc: "pv_barcode vals = Some b"
    and nm: "pv_name vals = pp_name pp" "pv_default_code vals = pp_code pp"
    and cmds: "\<exists>si. pv_seller_ids vals = prepare_supplierinfo today si (pv_recordset vals)"
    using eq by force
  from cmds have sup: "\<forall>c \<in> set (pv_seller_ids vals). is_update c \<or> is_create c"
    using prepare_supplierinfo_supported by metis
  have rs': "pv_recordset vals = find (\<lambda>p. p_barcode p = Some b) (db_products d)"
    using rs by (simp add: search_barcode_all)
  have found: "\<exists>q d'. pv_recordset vals = Some q \<and> q \<in> set (db_products d) \<and> p_barcode q = Some b
            \<and> create_update_product d vals = Inr (d', Product_created_updated (p_id q))
            \<and> map p_id (db_products d') = map p_id (db_products d)
            \<and> (\<forall>r \<in> set (db_products d'). p_id r = p_id q \<longrightarrow>
                  p_barcode r = Some b \<and> p_name r = pp_name pp
                  \<and> p_default_code r = pp_code pp)"
    if "\<exists>p \<in> set (db_products d). p_barcode p = Some b"
  proof -
    from that have "find (\<lambda>p. p_barcode p = Some b) (db_products d) \<noteq> None"
      by (auto simp: find_None_iff)
    then obtain q where q: "find (\<lambda>p. p_barcode p = Some b) (db_products d) = Some q"
      by blast
    then have qin: "q \<in> set (db_products d)" "p_barcode q = Some b"
      by (auto simp: find_Some_iff)
    from create_update_product_found [of vals q d] rs' q sup
    obtain d' where "create_update_product d vals = Inr (d', Product_created_updated (p_id q))"
      "map p_id (db_products d') = map p_id (db_products d)"
      "\<forall>r \<in> set (db_products d'). p_id r = p_id q \<longrightarrow>
                 p_name r = pv_name vals \<and> p_default_code r = pv_default_code vals
                 \<and> p_barcode r = pv_barcode vals \<and> p_active r = pv_active vals"
      by auto
    with rs' q qin bc nm show ?thesis by auto
  qed
  have new: "pv_recordset vals = None
         \<and> (\<exists>d'. create_update_product d vals
                    = Inr (d', Product_created_updated (db_next_id d))
              \<and> length (db_products d') = Suc (length (db_products d))
              \<and> p_id (last (db_products d')) = db_next_id d
              \<and> p_barcode (last (db_products d')) = Some b)"
    if "\<forall>p \<in> set (db_products d). p_barcode p \<noteq> Some b"
  proof -
    from that have n: "pv_recordset vals = None"
      unfolding rs' by (simp add: find_None_iff)
    from create_update_product_new [OF n, of d] bc n show ?thesis by simp
  qed
  from vals rs' found new show ?thesis by blast
qed

theorem product_matching_witness:
  "pp_barcode line_123 = Some ''123''
   \<and> map p_active (db_products db0) = [False]
   \<and> (\<exists>vals d'. prepare_product env0 db0 0 738000 line_123 [] (Some 7) = Inr (Some vals, [])
         \<and> pv_recordset vals = Some ((product_123 [offer_at 1 10])\<lparr>p_active := False\<rparr>)
         \<and> create_update_product db0 vals = Inr (d', Product_created_updated 5)
         \<and> map p_id (db_products d') = [5])"
proof -
  have b: "pp_barcode line_123 = Some ''123''" "''123'' \<noteq> []"
    by (simp_all add: line_123_def)
  have u: "match_uom env0 (pp_uom line_123) [] = Inr (3, [])"
    by (simp add: env0_def)
  have c: "match_currency env0 (pp_currency line_123) [] = Inr (1, [])"
    by (simp add: env0_def)
  have a: "map p_active (db_products db0) = [False]"
    by (simp add: db0_def)
  have ex: "\<exists>p \<in> set (db_products db0). p_barcode p = Some ''123''"
    by (simp add: db0_def product_123_def)
  have f: "find (\<lambda>p. p_barcode p = Some ''123'') (db_products db0)
            = Some ((product_123 [offer_at 1 10])\<lparr>p_active := False\<rparr>)"
    by (simp add: db0_def product_123_def)
  have i: "p_id ((product_123 [offer_at 1 10])\<lparr>p_active := False\<rparr>) = 5"
      "map p_id (db_products db0) = [5]"
    by (simp_all add: db0_def product_123_def)
  from product_matching [OF b u c, of db0 0 738000 "Some 7"] ex
  obtain vals q d' where
    "prepare_product env0 db0 0 738000 line_123 [] (Some 7) = Inr (Some vals, [])"
    "pv_recordset vals = find (\<lambda>p. p_barcode p = Some ''123'') (db_products db0)"
    "pv_recordset vals = Some q"
    "create_update_product db0 vals = Inr (d', Product_created_updated (p_id q))"
    "map p_id (db_products d') = map p_id (db_products db0)"
    by blast
  with f i have "\<exists>vals d'. prepare_product env0 db0 0 738000 line_123 [] (Some 7) = Inr (Some vals, [])
         \<and> pv_recordset vals = Some ((product_123 [offer_at 1 10])\<lparr>p_active := False\<rparr>)
         \<and> create_update_product db0 vals = Inr (d', Product_created_updated 5)
         \<and> map p_id (db_products d') = [5]"
    by auto
  with b(1) a show ?thesis by blast
qed

text \<open>
  C10. Every command of \<^verbatim>\<open>_prepare_supplierinfo\<close> is \<^verbatim>\<open>(1, id, {"date_end": yesterday})\<close>
  for an offer of the product or \<^verbatim>\<open>(0, 0, seller_info)\<close>; so for every \<^verbatim>\<open>product_vals\<close>
  that \<^verbatim>\<open>_prepare_product\<close> returns, \<^verbatim>\<open>_create_update_product\<close> returns a log line on every
  store and never reaches \<^verbatim>\<open>raise RuntimeError\<close>.
\<close>

theorem command_supported:
  "(\<forall>c \<in> set (prepare_supplierinfo today seller_info product).
      (\<exists>s \<in> set (offers_of product). c = (1, s_id s, Date_end (today - 1)))
      \<or> c = (0, 0, Seller_info (seller_info\<lparr>si_date_start :=
                Some (case si_date_start seller_info of None \<Rightarrow> today | Some d \<Rightarrow> d)\<rparr>)))
   \<and> (\<forall>vals ch. prepare_product e d company today pp chatter seller = Inr (Some vals, ch)
        \<longrightarrow> (\<forall>d0. (\<exists>d' m. create_update_product d0 vals = Inr (d', m))
                  \<and> (\<forall>msg. create_update_product d0 vals \<noteq> Inl (RuntimeError msg))))"
proof (intro conjI ballI allI impI)
  fix c
  assume "c \<in> set (prepare_supplierinfo today seller_info product)"
  then show "(\<exists>s \<in> set (offers_of product). c = (1, s_id s, Date_end (today - 1)))
      \<or> c = (0, 0, Seller_info (seller_info\<lparr>si_date_start :=
                Some (case si_date_start seller_info of None \<Rightarrow> today | Some d \<Rightarrow> d)\<rparr>))"
    by (simp only: setdefault_date_start_eq [symmetric]) (rule prepare_supplierinfo_commands)
next
  fix vals ch d0
  assume p: "prepare_product e d company today pp chatter seller = Inr (Some vals, ch)"
  from prepare_product_Some [OF p]
  have sup: "\<forall>c \<in> set (pv_seller_ids vals). is_update c \<or> is_create c"
    using prepare_supplierinfo_supported by metis
  from create_update_product_ok [OF sup, of d0]
  show ok: "\<exists>d' m. create_update_product d0 vals = Inr (d', m)" .
  fix msg
  from ok show "create_update_product d0 vals \<noteq> Inl (RuntimeError msg)"
    by auto
qed

theorem command_supported_witness:
  "prepare_supplierinfo 738000 candidate_12 (Some (product_123 [offer_at 1 10]))
     = [(1, 1, Date_end 737999), (0, 0, Seller_info (candidate_12\<lparr>si_date_start := Some 738000\<rparr>))]
   \<and> (\<exists>vals d' m. prepare_product env0 db0 0 738000 line_123 [] (Some 7) = Inr (Some vals, [])
        \<and> create_update_product db0 vals = Inr (d', m))"
proof -
  have b: "pp_barcode line_123 = Some ''123''" "''123'' \<noteq> []"
    by (simp_all add: line_123_def)
  have u: "match_uom env0 (pp_uom line_123) [] = Inr (3, [])"
    by (simp add: env0_def)
  have c: "match_currency env0 (pp_currency line_123) [] = Inr (1, [])"
    by (simp add: env0_def)
  from prepare_product_eq [OF b u c, of db0 0 738000 "Some 7"]
  obtain vals where v: "prepare_product env0 db0 0 738000 line_123 [] (Some 7) = Inr (Some vals, [])"
    by blast
  from command_supported [of 738000 candidate_12 "Some (product_123 [offer_at 1 10])"
      env0 db0 0 line_123 "[]" "Some 7"] v
  have "\<exists>d' m. create_update_product db0 vals = Inr (d', m)"
    by blast
  with v have 2: "\<exists>vals d' m. prepare_product env0 db0 0 738000 line_123 [] (Some 7) = Inr (Some vals, [])
        \<and> create_update_product db0 vals = Inr (d', m)"
    by blast
  have 1: "prepare_supplierinfo 738000 candidate_12 (Some (product_123 [offer_at 1 10]))
     = [(1, 1, Date_end 737999), (0, 0, Seller_info (candidate_12\<lparr>si_date_start := Some 738000\<rparr>))]"
    by (simp add: prepare_supplierinfo_def product_123_def offer_at_def candidate_12_def
        other_seller_def other_company_def ended_before_def same_fields_def
        setdefault_date_start_def)
  from 1 2 show ?thesis by blast
qed

section \<open>Properties of the resolving step\<close>

lemma get_company_id_no_job: "filter is_job (fst (get_company_id e c)) = []"
  by (simp add: get_company_id_def is_job_def split: option.splits sum.splits prod.splits)

lemma get_seller_no_job: "filter is_job (fst (get_seller e c)) = []"
  by (simp add: get_seller_def is_job_def split: option.splits sum.splits prod.splits)

lemma filter_is_job_jobs:
  "filter is_job (map (\<lambda>chunk. Delayed_job company chunk seller) chunks)
     = map (\<lambda>chunk. Delayed_job company chunk seller) chunks"
  by (induction chunks) (simp_all add: is_job_def)

lemma get_seller_resolved:
  assumes "get_seller e c = (ev, Inr (seller, c2))" "raises_on_failure e"
  shows "seller \<noteq> 0"
proof -
  from assms(1) obtain chatter chatter1
    where "match_partner e (cat_seller c) chatter
             \<lparr>partner_type = ''supplier'', domain_is_company = False, raise_exception = None\<rparr>
           = Inr (seller, chatter1)"
    by (auto simp: get_seller_def split: option.splits sum.splits prod.splits)
  with assms(2) show ?thesis
    unfolding raises_on_failure_def by (metis match_kw.select_convs(3) option.distinct(1))
qed

lemma import_button_jobs:
  assumes "Delayed_job company chunk seller \<in> set (fst (import_button e self chunk_size))"
  shows "\<exists>c1 ev2 c2. get_seller e c1 = (ev2, Inr (seller, c2))"
proof -
  from assms obtain content where f: "product_file self = Some content"
    by (cases "product_file self") (auto simp: import_button_def)
  from assms f obtain catalogue
    where p: "parse_product_catalogue e (b64decode e content) (product_filename self) = Inr catalogue"
    by (cases "parse_product_catalogue e (b64decode e content) (product_filename self)")
       (auto simp: import_button_def)
  from assms f p obtain prods where ps: "cat_products catalogue = Some prods" "prods \<noteq> []"
    by (cases "cat_products catalogue") (auto simp: import_button_def split: if_splits)
  obtain ev1 r1 where g: "get_company_id e catalogue = (ev1, r1)"
    by (cases "get_company_id e catalogue")
  have nj1: "Delayed_job company chunk seller \<notin> set ev1"
    using get_company_id_no_job [of e catalogue] g
    by (auto simp: filter_empty_conv is_job_def)
  from assms f p ps g nj1 obtain company_id c1 where r1: "r1 = Inr (company_id, c1)"
    by (cases r1) (auto simp: import_button_def)
  obtain ev2 r2 where s: "get_seller e c1 = (ev2, r2)"
    by (cases "get_seller e c1")
  have nj2: "Delayed_job company chunk seller \<notin> set ev2"
    using get_seller_no_job [of e c1] s
    by (auto simp: filter_empty_conv is_job_def)
  from assms f p ps g r1 s nj1 nj2 obtain sid c2 where r2: "r2 = Inr (sid, c2)"
    by (cases r2) (auto simp: import_button_def)
  from assms f p ps g r1 s r2 nj1 nj2 have "seller = sid"
    by (auto simp: import_button_def)
  with s r2 show ?thesis by blast
qed

text \<open>
  C7. The company is optional: when the catalogue names no company, or the matcher
  (called with \<^verbatim>\<open>raise_exception=False\<close>) finds no partner, \<^verbatim>\<open>_get_company_id\<close> returns
  \<^verbatim>\<open>False\<close> and raises nothing. The seller is required: when its resolution raises,
  \<^verbatim>\<open>import_button\<close> raises the same error and has handed no job to the queue; when it
  returns, the import ends normally and every job carries the company id and the seller
  id that were resolved. So every job of any run carries the id that a seller resolution
  returned, and under the matcher's contract that id is a partner's.
\<close>

theorem company_optional_seller_required:
  "((cat_company c = None \<or> cat_company c = Some [])
      \<longrightarrow> get_company_id e c = ([], Inr (0, c)))
   \<and> (\<forall>v ch ch'. cat_company c = Some v \<and> v \<noteq> [] \<and> cat_chatter_msg c = Some ch
         \<and> match_partner e v ch
              \<lparr>partner_type = ''contact'', domain_is_company = True,
               raise_exception = Some False\<rparr> = Inr (0, ch')
         \<longrightarrow> get_company_id e c
               = ([Resolve ''contact''], Inr (0, c\<lparr>cat_chatter_msg := Some ch'\<rparr>)))
   \<and> (\<forall>content catalogue prods ev1 company_id c1 ev2.
         product_file self = Some content
         \<and> parse_product_catalogue e (b64decode e content) (product_filename self)
             = Inr catalogue
         \<and> cat_products catalogue = Some prods \<and> prods \<noteq> []
         \<and> get_company_id e catalogue = (ev1, Inr (company_id, c1))
         \<longrightarrow> (\<forall>err. get_seller e c1 = (ev2, Inl err)
                 \<longrightarrow> import_button e self chunk_size = (ev1 @ ev2, Inl err)
                     \<and> filter is_job (ev1 @ ev2) = [])
             \<and> (\<forall>seller c2. get_seller e c1 = (ev2, Inr (seller, c2))
                 \<longrightarrow> snd (import_button e self chunk_size) = Inr Act_window_close
                     \<and> filter is_job (fst (import_button e self chunk_size))
                         = map (\<lambda>chunk. Delayed_job company_id chunk seller)
                             (import_chunks chunk_size prods)))
   \<and> (\<forall>company chunk seller.
         Delayed_job company chunk seller \<in> set (fst (import_button e self chunk_size))
         \<longrightarrow> (\<exists>c1 ev2 c2. get_seller e c1 = (ev2, Inr (seller, c2)))
             \<and> (raises_on_failure e \<longrightarrow> seller \<noteq> 0))"
proof (intro conjI allI impI)
  assume "cat_company c = None \<or> cat_company c = Some []"
  then show "get_company_id e c = ([], Inr (0, c))"
    by (auto simp: get_company_id_def)
next
  fix v ch ch'
  assume "cat_company c = Some v \<and> v \<noteq> [] \<and> cat_chatter_msg c = Some ch
         \<and> match_partner e v ch
              \<lparr>partner_type = ''contact'', domain_is_company = True,
               raise_exception = Some False\<rparr> = Inr (0, ch')"
  then show "get_company_id e c
               = ([Resolve ''contact''], Inr (0, c\<lparr>cat_chatter_msg := Some ch'\<rparr>))"
    by (simp add: get_company_id_def)
next
  fix content catalogue prods ev1 company_id c1 ev2 err
  assume h: "product_file self = Some content
         \<and> parse_product_catalogue e (b64decode e content) (product_filename self)
             = Inr catalogue
         \<and> cat_products catalogue = Some prods \<and> prods \<noteq> []
         \<and> get_company_id e catalogue = (ev1, Inr (company_id, c1))"
    and s: "get_seller e c1 = (ev2, Inl err)"
  from h s show "import_button e self chunk_size = (ev1 @ ev2, Inl err)"
    by (simp add: import_button_def)
  from h s show "filter is_job (ev1 @ ev2) = []"
    using get_company_id_no_job [of e catalogue] get_seller_no_job [of e c1] by simp
next
  fix content catalogue prods ev1 company_id c1 ev2 seller c2
  assume h: "product_file self = Some content
         \<and> parse_product_catalogue e (b64decode e content) (product_filename self)
             = Inr catalogue
         \<and> cat_products catalogue = Some prods \<and> prods \<noteq> []
         \<and> get_company_id e catalogue = (ev1, Inr (company_id, c1))"
    and s: "get_seller e c1 = (ev2, Inr (seller, c2))"
  from h s have ib: "import_button e self chunk_size =
      (ev1 @ ev2 @ map (\<lambda>chunk. Delayed_job company_id chunk seller)
                     (import_chunks chunk_size prods)
         @ [Post_create_or_update c2 seller (product_filename self)],
       Inr Act_window_close)"
    by (simp add: import_button_def)
  from ib show "snd (import_button e self chunk_size) = Inr Act_window_close"
    by simp
  from h s have nj: "filter is_job ev1 = []" "filter is_job ev2 = []"
    using get_company_id_no_job [of e catalogue] get_seller_no_job [of e c1] by simp_all
  show "filter is_job (fst (import_button e self chunk_size))
          = map (\<lambda>chunk. Delayed_job company_id chunk seller) (import_chunks chunk_size prods)"
    unfolding ib by (simp add: nj filter_is_job_jobs is_job_def)
next
  fix company chunk seller
  assume j: "Delayed_job company chunk seller \<in> set (fst (import_button e self chunk_size))"
  from import_button_jobs [OF j]
  show r: "\<exists>c1 ev2 c2. get_seller e c1 = (ev2, Inr (seller, c2))" .
  assume "raises_on_failure e"
  with r show "seller \<noteq> 0"
    using get_seller_resolved by blast
qed

lemma env_with_match_partner:
  "match_partner (env_with c) = match_partner env0"
  by (simp add: env_with_def)

theorem company_optional_seller_required_witness:
  "cat_company (stored [line_123] ''Unknown Vendor'') = None
   \<and> get_company_id (env_with (catalogue_of [line_123] ''Unknown Vendor''))
        (stored [line_123] ''Unknown Vendor'')
       = ([], Inr (0, stored [line_123] ''Unknown Vendor''))
   \<and> import_button (env_with (catalogue_of [line_123] ''Unknown Vendor'')) wizard0 CHUNK_SIZE
       = ([Resolve ''supplier''], Inl (UserError (Resolver_message ''no partner found'')))
   \<and> raises_on_failure (env_with (catalogue_of [line_123] ''Catalogue Vendor''))
   \<and> snd (import_button (env_with (catalogue_of [line_123] ''Catalogue Vendor'')) wizard0
             CHUNK_SIZE) = Inr Act_window_close
   \<and> filter is_job (fst (import_button (env_with (catalogue_of [line_123] ''Catalogue Vendor''))
                             wizard0 CHUNK_SIZE))
       = [Delayed_job 0 [Some line_123] 7]"
proof -
  let ?e = "env_with (catalogue_of [line_123] ''Unknown Vendor'')"
  let ?c = "stored [line_123] ''Unknown Vendor''"
  let ?e1 = "env_with (catalogue_of [line_123] ''Catalogue Vendor'')"
  let ?c1 = "stored [line_123] ''Catalogue Vendor''"
  have n: "cat_company ?c = None" "cat_company ?c1 = None"
    by (simp_all add: stored_def)
  have f: "product_file wizard0 = Some ''<catalogue/>''"
    by (simp add: wizard0_def)
  have p: "parse_product_catalogue ?e (b64decode ?e ''<catalogue/>'') (product_filename wizard0)
           = Inr ?c"
    using parse_env_with [of "[line_123]" "''Unknown Vendor''"] by (simp add: wizard0_def)
  have p1: "parse_product_catalogue ?e1 (b64decode ?e1 ''<catalogue/>'') (product_filename wizard0)
           = Inr ?c1"
    using parse_env_with [of "[line_123]" "''Catalogue Vendor''"] by (simp add: wizard0_def)
  have ps: "cat_products ?c = Some [line_123]" "cat_products ?c1 = Some [line_123]"
      "[line_123] \<noteq> []"
    by (simp_all add: stored_def)
  have s: "get_seller ?e ?c
           = ([Resolve ''supplier''], Inl (UserError (Resolver_message ''no partner found'')))"
    by (simp add: get_seller_def env_with_match_partner env0_def stored_def)
  have s1: "get_seller ?e1 ?c1 = ([Resolve ''supplier''], Inr (7, ?c1))"
    by (simp add: get_seller_def env_with_match_partner env0_def stored_def)
  have r: "raises_on_failure ?e1"
    by (simp add: raises_on_failure_def env_with_match_partner env0_def)
  have ch: "import_chunks CHUNK_SIZE [line_123] = [[Some line_123]]"
    by (simp add: import_chunks_step CHUNK_SIZE_def)
  note t = company_optional_seller_required [of ?c ?e wizard0 CHUNK_SIZE]
  from t n have g: "get_company_id ?e ?c = ([], Inr (0, ?c))"
    by blast
  from t f p ps g s
  have i: "import_button ?e wizard0 CHUNK_SIZE
          = ([] @ [Resolve ''supplier''], Inl (UserError (Resolver_message ''no partner found'')))"
    by blast
  note t1 = company_optional_seller_required [of ?c1 ?e1 wizard0 CHUNK_SIZE]
  from t1 n have g1: "get_company_id ?e1 ?c1 = ([], Inr (0, ?c1))"
    by blast
  from t1 f p1 ps g1 s1
  have j: "snd (import_button ?e1 wizard0 CHUNK_SIZE) = Inr Act_window_close
           \<and> filter is_job (fst (import_button ?e1 wizard0 CHUNK_SIZE))
              = map (\<lambda>chunk. Delayed_job 0 chunk 7) (import_chunks CHUNK_SIZE [line_123])"
    by blast
  from n g i r j ch show ?thesis by simp
qed

section \<open>The store after the offer writes\<close>

lemma find_map_id:
  assumes "\<And>p. p_id (f p) = p_id p"
  shows "find (\<lambda>p. p_id p = i) (map f ps) = map_option f (find (\<lambda>p. p_id p = i) ps)"
  by (induction ps) (simp_all add: assms)

lemma offers_by_id_write:
  "offers_by_id i (supplierinfo_write l v d)
     = map (\<lambda>s. if s_id s = l then write_vals v s else s) (offers_by_id i d)"
  by (simp add: offers_by_id_def supplierinfo_write_def find_map_id split: option.splits)

lemma write_supplierinfo_updates_by_id:
  "\<exists>d1. write_supplierinfo (map (\<lambda>s. (1, s_id s, Date_end y)) ss) pid d = Inr d1
     \<and> db_next_id d1 = db_next_id d
     \<and> map p_id (db_products d1) = map p_id (db_products d)
     \<and> offers_by_id i d1
        = map (\<lambda>s. if s_id s \<in> s_id ` set ss then s\<lparr>s_date_end := Some y\<rparr> else s)
            (offers_by_id i d)"
proof (induction ss arbitrary: d)
  case Nil
  then show ?case by simp
next
  case (Cons a ss)
  let ?d = "supplierinfo_write (s_id a) (Date_end y) d"
  from Cons.IH [of ?d] obtain d1 where d1:
    "write_supplierinfo (map (\<lambda>s. (1, s_id s, Date_end y)) ss) pid ?d = Inr d1"
    "db_next_id d1 = db_next_id ?d"
    "map p_id (db_products d1) = map p_id (db_products ?d)"
    "offers_by_id i d1
        = map (\<lambda>s. if s_id s \<in> s_id ` set ss then s\<lparr>s_date_end := Some y\<rparr> else s)
            (offers_by_id i ?d)"
    by blast
  have "offers_by_id i d1
        = map (\<lambda>s. if s_id s \<in> s_id ` set (a # ss) then s\<lparr>s_date_end := Some y\<rparr> else s)
            (offers_by_id i d)"
    unfolding d1(4) offers_by_id_write by auto
  with d1 show ?case
    by (simp add: supplierinfo_write_def)
qed

lemma nothing_to_write:
  assumes "\<forall>s \<in> set (offers_of product). \<not> conflicting today si s \<and> s_id s \<noteq> 0"
    and "k \<in> set (offers_of product)" "considered today si k" "same_fields si k"
  shows "prepare_supplierinfo today si product = []"
proof -
  from assms(1) have "filter (conflicting today si) (offers_of product) = []"
    by (auto simp: filter_empty_conv)
  moreover from assms(1) have "\<forall>s' \<in> set (offers_of product). s_id s' \<noteq> 0"
    by blast
  ultimately show ?thesis
    using no_create_in_prepare_supplierinfo [OF assms(2-4)] by simp
qed

lemma ended_not_conflicting:
  "\<not> conflicting today si (s\<lparr>s_date_end := Some (today - 1)\<rparr>)"
  by (simp add: conflicting_def considered_def)

lemma conflicting_by_id:
  assumes "distinct (map s_id offs)" "s \<in> set offs"
  shows "s_id s \<in> s_id ` set (filter (conflicting today si) offs) \<longleftrightarrow> conflicting today si s"
proof
  assume "s_id s \<in> s_id ` set (filter (conflicting today si) offs)"
  then obtain s' where s': "s' \<in> set offs" "conflicting today si s'" "s_id s' = s_id s"
    by auto
  from assms(1) have "inj_on s_id (set offs)"
    by (simp add: distinct_map)
  with s'(1,3) assms(2) have "s' = s"
    by (rule_tac inj_onD)
  with s'(2) show "conflicting today si s" by simp
next
  assume "conflicting today si s"
  with assms(2) show "s_id s \<in> s_id ` set (filter (conflicting today si) offs)" by simp
qed

lemma end_conflicting_id [simp]: "s_id (end_conflicting today si s) = s_id s"
  by (simp add: end_conflicting_def)

lemma end_conflicting_not: "\<not> conflicting today si (end_conflicting today si s)"
  by (simp add: end_conflicting_def ended_not_conflicting)

lemma end_conflicting_kept: "same_fields si k \<Longrightarrow> end_conflicting today si k = k"
  by (simp add: end_conflicting_def conflicting_def)

lemma updates_end:
  assumes "distinct (map s_id offs)"
  shows "map (\<lambda>s. if s_id s \<in> s_id ` set (filter (conflicting today si) offs)
                  then s\<lparr>s_date_end := Some (today - 1)\<rparr> else s) offs
         = map (end_conflicting today si) offs"
proof (rule map_cong [OF refl])
  fix s assume "s \<in> set offs"
  from conflicting_by_id [OF assms this, of today si]
  show "(if s_id s \<in> s_id ` set (filter (conflicting today si) offs)
         then s\<lparr>s_date_end := Some (today - 1)\<rparr> else s) = end_conflicting today si s"
    by (simp add: end_conflicting_def)
qed

lemma ended_clean:
  assumes "\<forall>s \<in> set offs. s_id s \<noteq> 0" "s' \<in> set (map (end_conflicting today si) offs)"
  shows "\<not> conflicting today si s' \<and> s_id s' \<noteq> 0"
proof -
  from assms(2) obtain s where s: "s \<in> set offs" "s' = end_conflicting today si s"
    by auto
  from s(1) assms(1) have "s_id s \<noteq> 0" by blast
  then show ?thesis
    unfolding s(2) by (simp add: end_conflicting_not)
qed

lemma reapply_kept:
  assumes br: "offers_of product = offers_by_id pid d"
    and nz: "\<forall>s \<in> set (offers_of product). s_id s \<noteq> 0"
    and di: "distinct (map s_id (offers_of product))"
    and k: "k \<in> set (offers_of product)" "considered today si k" "same_fields si k"
  shows "\<exists>d1. write_supplierinfo (prepare_supplierinfo today si product) pid d = Inr d1
          \<and> offers_by_id pid d1 = map (end_conflicting today si) (offers_of product)"
proof -
  from write_supplierinfo_updates_by_id
    [of "today - 1" "filter (conflicting today si) (offers_of product)" pid d pid]
  obtain d1 where d1:
      "write_supplierinfo (map (\<lambda>s. (1, s_id s, Date_end (today - 1)))
          (filter (conflicting today si) (offers_of product))) pid d = Inr d1"
      "offers_by_id pid d1
        = map (\<lambda>s. if s_id s \<in> s_id ` set (filter (conflicting today si) (offers_of product))
                    then s\<lparr>s_date_end := Some (today - 1)\<rparr> else s)
            (offers_by_id pid d)"
    by blast
  from d1(2) have E: "offers_by_id pid d1 = map (end_conflicting today si) (offers_of product)"
    unfolding br [symmetric] by (simp only: updates_end [OF di])
  from no_create_in_prepare_supplierinfo [OF k nz] d1(1)
  have "write_supplierinfo (prepare_supplierinfo today si product) pid d = Inr d1"
    by simp
  with E show ?thesis by blast
qed

lemma offers_by_id_product_write [simp]:
  "offers_by_id i (product_write j v d) = offers_by_id i d"
  by (simp add: offers_by_id_def product_write_def find_map_id split: option.splits)

lemma find_by_id_distinct:
  assumes "distinct (map p_id ps)" "q \<in> set ps"
  shows "find (\<lambda>p. p_id p = p_id q) ps = Some q"
  using assms
proof (induction ps)
  case Nil
  then show ?case by simp
next
  case (Cons a ps)
  show ?case
  proof (cases "a = q")
    case True
    then show ?thesis by simp
  next
    case False
    with Cons.prems have q: "q \<in> set ps" by simp
    with Cons.prems have "p_id a \<noteq> p_id q" by auto
    with Cons.IH q Cons.prems show ?thesis by simp
  qed
qed

lemma offers_by_id_member:
  assumes "distinct (map p_id (db_products d))" "q \<in> set (db_products d)"
  shows "offers_by_id (p_id q) d = p_seller_ids q"
  by (simp add: offers_by_id_def find_by_id_distinct [OF assms])

lemma reapply_after_update:
  assumes s: "s \<in> set (p_seller_ids q)" "considered today si s" "same_fields si s"
    and nz: "\<forall>s' \<in> set (p_seller_ids q). s_id s' \<noteq> 0"
    and di: "distinct (map s_id (p_seller_ids q))"
    and q: "q \<in> set (db_products d)" "distinct (map p_id (db_products d))"
    and v: "pv_recordset vals = Some q"
      "pv_seller_ids vals = prepare_supplierinfo today si (Some q)"
  shows "\<exists>d2. create_update_product d vals = Inr (d2, Product_created_updated (p_id q))
          \<and> (\<exists>q' \<in> set (db_products d2). p_id q' = p_id q)
          \<and> (\<forall>q' \<in> set (db_products d2). p_id q' = p_id q
                \<longrightarrow> prepare_supplierinfo today si (Some q') = [])"
proof -
  have oq: "offers_of (Some q) = p_seller_ids q"
    by (simp add: offers_of_def)
  have br: "offers_of (Some q) = offers_by_id (p_id q) d"
    unfolding oq using offers_by_id_member [OF q(2,1)] by simp
  from s have s': "s \<in> set (offers_of (Some q))"
    unfolding oq by simp
  from nz have nz': "\<forall>s' \<in> set (offers_of (Some q)). s_id s' \<noteq> 0"
    unfolding oq by simp
  from di have di': "distinct (map s_id (offers_of (Some q)))"
    unfolding oq by simp
  from reapply_kept [OF br nz' di' s' s(2,3)]
  obtain d1 where d1: "write_supplierinfo (prepare_supplierinfo today si (Some q)) (p_id q) d = Inr d1"
      "offers_by_id (p_id q) d1 = map (end_conflicting today si) (p_seller_ids q)"
    unfolding oq by blast
  from write_supplierinfo_ok [OF prepare_supplierinfo_supported, of today si "Some q" "p_id q" d] d1(1)
  have ids1: "map p_id (db_products d1) = map p_id (db_products d)"
    by simp
  let ?d2 = "product_write (p_id q) vals d1"
  have c: "create_update_product d vals = Inr (?d2, Product_created_updated (p_id q))"
    by (simp add: create_update_product_def v d1(1))
  have ids2: "map p_id (db_products ?d2) = map p_id (db_products d)"
    using ids1 by simp
  then have dist2: "distinct (map p_id (db_products ?d2))"
    using q(2) by simp
  have ex: "\<exists>q' \<in> set (db_products ?d2). p_id q' = p_id q"
  proof -
    from q(1) have "p_id q \<in> set (map p_id (db_products d))" by simp
    then have "p_id q \<in> set (map p_id (db_products ?d2))"
      unfolding ids2 .
    then have "p_id q \<in> p_id ` set (db_products ?d2)"
      by (simp only: set_map)
    then obtain q' where "q' \<in> set (db_products ?d2)" "p_id q = p_id q'"
      by (rule imageE)
    then show ?thesis by (intro bexI [of _ q']) simp_all
  qed
  have no_write: "prepare_supplierinfo today si (Some q') = []"
    if "q' \<in> set (db_products ?d2)" "p_id q' = p_id q" for q'
  proof (rule nothing_to_write)
    from offers_by_id_member [OF dist2 that(1)] that(2)
    have o: "offers_of (Some q') = map (end_conflicting today si) (p_seller_ids q)"
      by (simp add: offers_of_def d1(2))
    show "\<forall>x \<in> set (offers_of (Some q')). \<not> conflicting today si x \<and> s_id x \<noteq> 0"
      unfolding o using ended_clean [OF nz] by blast
    have "end_conflicting today si s \<in> set (map (end_conflicting today si) (p_seller_ids q))"
      using s(1) by simp
    then show "s \<in> set (offers_of (Some q'))"
      unfolding o end_conflicting_kept [OF s(3)] .
    show "considered today si s" "same_fields si s"
      using s by simp_all
  qed
  have all: "\<forall>q' \<in> set (db_products ?d2). p_id q' = p_id q
                \<longrightarrow> prepare_supplierinfo today si (Some q') = []"
  proof (intro ballI impI)
    fix q' assume "q' \<in> set (db_products ?d2)" "p_id q' = p_id q"
    then show "prepare_supplierinfo today si (Some q') = []"
      by (rule no_write)
  qed
  from c ex all show ?thesis
    by (intro exI [of _ ?d2] conjI)
qed

section \<open>Reapplying a catalogue line\<close>

text \<open>
  C3, as the code has it. If the product has an offer that is considered (same seller,
  company the candidate's or unset, not ended before today) and whose six fields are equal
  to the candidate's under Python's \<^verbatim>\<open>==\<close>, then the commands hold no create and no write
  on that offer: each command ends another offer of the seller, one that conflicts. Once
  \<^verbatim>\<open>_create_update_product\<close> has done these writes, preparing the same candidate again for
  the product as the store now has it gives no command: reapplying the line writes no
  offer. Stored records have ids other than \<open>0\<close>, one id per record.
\<close>

theorem reconcile_idempotent:
  assumes "s \<in> set (offers_of product)"
    and "considered today seller_info s"
    and "same_fields seller_info s"
    and "\<forall>s' \<in> set (offers_of product). s_id s' \<noteq> 0"
    and "distinct (map s_id (offers_of product))"
  shows "(\<forall>c \<in> set (prepare_supplierinfo today seller_info product). \<not> is_create c)
    \<and> (\<forall>v. (1, s_id s, v) \<notin> set (prepare_supplierinfo today seller_info product))
    \<and> (\<forall>c \<in> set (prepare_supplierinfo today seller_info product).
          \<exists>s' \<in> set (offers_of product).
            conflicting today seller_info s' \<and> c = (1, s_id s', Date_end (today - 1)))
    \<and> ((\<forall>s' \<in> set (offers_of product). considered today seller_info s'
           \<longrightarrow> same_fields seller_info s')
        \<longrightarrow> prepare_supplierinfo today seller_info product = [])
    \<and> (\<forall>q d vals. product = Some q \<and> q \<in> set (db_products d)
           \<and> distinct (map p_id (db_products d))
           \<and> pv_recordset vals = Some q
           \<and> pv_seller_ids vals = prepare_supplierinfo today seller_info (Some q)
         \<longrightarrow> (\<exists>d2. create_update_product d vals = Inr (d2, Product_created_updated (p_id q))
                \<and> (\<exists>q' \<in> set (db_products d2). p_id q' = p_id q)
                \<and> (\<forall>q' \<in> set (db_products d2). p_id q' = p_id q
                      \<longrightarrow> prepare_supplierinfo today seller_info (Some q') = [])))"
proof -
  note eq = no_create_in_prepare_supplierinfo [OF assms(1-4)]
  have a: "\<forall>c \<in> set (prepare_supplierinfo today seller_info product). \<not> is_create c"
    unfolding eq by (auto simp: is_create_def)
  have b: "\<forall>v. (1, s_id s, v) \<notin> set (prepare_supplierinfo today seller_info product)"
  proof (intro allI notI)
    fix v
    assume "(1, s_id s, v) \<in> set (prepare_supplierinfo today seller_info product)"
    then obtain s' where s': "s' \<in> set (offers_of product)" "conflicting today seller_info s'"
        "s_id s' = s_id s"
      unfolding update_in_prepare_supplierinfo by blast
    from assms(5) have "inj_on s_id (set (offers_of product))"
      by (simp add: distinct_map)
    with s'(1,3) assms(1) have "s' = s"
      by (rule_tac inj_onD)
    with s'(2) assms(3) show False
      by (simp add: conflicting_def)
  qed
  have c: "\<forall>c \<in> set (prepare_supplierinfo today seller_info product).
          \<exists>s' \<in> set (offers_of product).
            conflicting today seller_info s' \<and> c = (1, s_id s', Date_end (today - 1))"
    unfolding eq by auto
  have d: "(\<forall>s' \<in> set (offers_of product). considered today seller_info s'
           \<longrightarrow> same_fields seller_info s')
        \<longrightarrow> prepare_supplierinfo today seller_info product = []"
  proof
    assume "\<forall>s' \<in> set (offers_of product). considered today seller_info s'
           \<longrightarrow> same_fields seller_info s'"
    then have "filter (conflicting today seller_info) (offers_of product) = []"
      by (auto simp: filter_empty_conv conflicting_def)
    then show "prepare_supplierinfo today seller_info product = []"
      unfolding eq by simp
  qed
  have e: "\<forall>q d vals. product = Some q \<and> q \<in> set (db_products d)
           \<and> distinct (map p_id (db_products d))
           \<and> pv_recordset vals = Some q
           \<and> pv_seller_ids vals = prepare_supplierinfo today seller_info (Some q)
         \<longrightarrow> (\<exists>d2. create_update_product d vals = Inr (d2, Product_created_updated (p_id q))
                \<and> (\<exists>q' \<in> set (db_products d2). p_id q' = p_id q)
                \<and> (\<forall>q' \<in> set (db_products d2). p_id q' = p_id q
                      \<longrightarrow> prepare_supplierinfo today seller_info (Some q') = []))"
  proof (intro allI impI)
    fix q and d :: db and vals :: product_vals
    assume h: "product = Some q \<and> q \<in> set (db_products d)
           \<and> distinct (map p_id (db_products d))
           \<and> pv_recordset vals = Some q
           \<and> pv_seller_ids vals = prepare_supplierinfo today seller_info (Some q)"
    then have o: "offers_of product = p_seller_ids q"
      by (simp add: offers_of_def)
    from h have h1: "q \<in> set (db_products d)" and h2: "distinct (map p_id (db_products d))"
      and h3: "pv_recordset vals = Some q"
      and h4: "pv_seller_ids vals = prepare_supplierinfo today seller_info (Some q)"
      by simp_all
    from assms(1) have s1: "s \<in> set (p_seller_ids q)" unfolding o .
    from assms(4) have s4: "\<forall>s' \<in> set (p_seller_ids q). s_id s' \<noteq> 0" unfolding o .
    from assms(5) have s5: "distinct (map s_id (p_seller_ids q))" unfolding o .
    show "\<exists>d2. create_update_product d vals = Inr (d2, Product_created_updated (p_id q))
                \<and> (\<exists>q' \<in> set (db_products d2). p_id q' = p_id q)
                \<and> (\<forall>q' \<in> set (db_products d2). p_id q' = p_id q
                      \<longrightarrow> prepare_supplierinfo today seller_info (Some q') = [])"
      by (rule reapply_after_update [OF s1 assms(2,3) s4 s5 h1 h2 h3 h4])
  qed
  from a b c d e show ?thesis
    by (intro conjI)
qed

theorem reconcile_idempotent_witness:
  "considered 738000 candidate_12 (offer_at 1 12)
   \<and> same_fields candidate_12 (offer_at 1 12)
   \<and> prepare_supplierinfo 738000 candidate_12
         (Some (product_123 [offer_at 1 12, offer_at 2 10])) = [(1, 2, Date_end 737999)]
   \<and> (\<exists>d2. create_update_product db1 vals1 = Inr (d2, Product_created_updated 5)
         \<and> (\<exists>q' \<in> set (db_products d2). p_id q' = 5
               \<and> prepare_supplierinfo 738000 candidate_12 (Some q') = []))"
proof -
  let ?q = "product_123 [offer_at 1 12, offer_at 2 10]"
  have o: "offers_of (Some ?q) = [offer_at 1 12, offer_at 2 10]"
    by (simp add: offers_of_def product_123_def)
  have s: "offer_at 1 12 \<in> set (offers_of (Some ?q))"
    unfolding o by simp
  have c: "considered 738000 candidate_12 (offer_at 1 12)"
    by (simp add: considered_def candidate_12_def offer_at_def)
  have f: "same_fields candidate_12 (offer_at 1 12)"
    by (simp add: same_fields_def candidate_12_def offer_at_def)
  have n: "\<forall>s' \<in> set (offers_of (Some ?q)). s_id s' \<noteq> 0"
    unfolding o by (simp add: offer_at_def)
  have d: "distinct (map s_id (offers_of (Some ?q)))"
    unfolding o by (simp add: offer_at_def)
  have p: "prepare_supplierinfo 738000 candidate_12 (Some ?q) = [(1, 2, Date_end 737999)]"
    by (simp add: prepare_supplierinfo_def product_123_def offer_at_def candidate_12_def
        other_seller_def other_company_def ended_before_def same_fields_def)
  have h: "Some ?q = Some ?q \<and> ?q \<in> set (db_products db1)
           \<and> distinct (map p_id (db_products db1))
           \<and> pv_recordset vals1 = Some ?q
           \<and> pv_seller_ids vals1 = prepare_supplierinfo 738000 candidate_12 (Some ?q)"
    by (simp add: db1_def vals1_def)
  have i: "p_id ?q = 5"
    by (simp add: product_123_def)
  from reconcile_idempotent [OF s c f n d] h
  have "\<exists>d2. create_update_product db1 vals1 = Inr (d2, Product_created_updated (p_id ?q))
         \<and> (\<exists>q' \<in> set (db_products d2). p_id q' = p_id ?q)
         \<and> (\<forall>q' \<in> set (db_products d2). p_id q' = p_id ?q
               \<longrightarrow> prepare_supplierinfo 738000 candidate_12 (Some q') = [])"
    by blast
  then have "\<exists>d2. create_update_product db1 vals1 = Inr (d2, Product_created_updated 5)
         \<and> (\<exists>q' \<in> set (db_products d2). p_id q' = 5
               \<and> prepare_supplierinfo 738000 candidate_12 (Some q') = [])"
    unfolding i by blast
  with c f p show ?thesis by blast
qed

text \<open>
  The claim as the specification states it fails twice. An identical offer in the list
  does not make the commands empty: another offer of the seller that conflicts is still
  ended. And a line whose \<^verbatim>\<open>product_code\<close> is \<^verbatim>\<open>None\<close> is not idempotent: the offer that
  its first application creates reads back with \<^verbatim>\<open>product_code = False\<close>, so the second
  application ends that offer and creates another.
\<close>

theorem reapply_writes_counterexample:
  "considered 738000 candidate_12 (offer_at 1 12)
   \<and> same_fields candidate_12 (offer_at 1 12)
   \<and> prepare_supplierinfo 738000 candidate_12
         (Some (product_123 [offer_at 1 12, offer_at 2 10])) = [(1, 2, Date_end 737999)]
   \<and> prepare_supplierinfo 738000 (candidate_12\<lparr>si_product_code := PyNone\<rparr>)
         (Some (product_123
            [new_supplierinfo 1
               (Seller_info (setdefault_date_start 738000
                  (candidate_12\<lparr>si_product_code := PyNone\<rparr>)))]))
       = [(1, 1, Date_end 737999),
          (0, 0, Seller_info (candidate_12\<lparr>si_product_code := PyNone,
                                            si_date_start := Some 738000\<rparr>))]"
  by (simp add: prepare_supplierinfo_def product_123_def offer_at_def candidate_12_def
      other_seller_def other_company_def ended_before_def same_fields_def considered_def
      new_supplierinfo_def setdefault_date_start_def orm_char_def)

section \<open>Properties of the detection\<close>

lemma parse_file_detect:
  assumes "filename \<noteq> []" "data \<noteq> []"
  shows "parse_file e filename data detect =
     (case fromstring e data of
        None \<Rightarrow> Inl (UserError Not_XML_compliant)
      | Some tree \<Rightarrow>
          (case parse_xml_catalogue e (Some tree) True of
             Inl (UserError m) \<Rightarrow> Inl (UserError Unsupported_XML_document)
           | Inl (NotImplementedError m) \<Rightarrow> Inl (UserError Unsupported_XML_document)
           | Inl err \<Rightarrow> Inl err
           | Inr r \<Rightarrow> parse_xml_catalogue e (Some tree) detect))"
  using assms
  by (simp add: parse_file_def parse_xml_def split: option.splits sum.splits error.splits)

lemma product_file_change_no_event: "fst (product_file_change e self) = []"
  by (simp add: product_file_change_def split: option.splits sum.splits)

lemma product_file_change_unset:
  assumes "product_file self = None \<or> product_file self = Some [] \<or> product_filename self = []"
  shows "snd (product_file_change e self) = Inr No_action"
  using assms by (auto simp: product_file_change_def split: option.splits)

lemma product_file_change_empty:
  assumes "product_file self = Some content" "content \<noteq> []" "product_filename self \<noteq> []"
    "b64decode e content = []"
  shows "snd (product_file_change e self) = Inl (AssertionError ''Missing file content'')"
  using assms by (simp add: product_file_change_def parse_file_def)

lemma product_file_change_malformed:
  assumes "product_file self = Some content" "content \<noteq> []" "product_filename self \<noteq> []"
    "b64decode e content \<noteq> []" "fromstring e (b64decode e content) = None"
  shows "snd (product_file_change e self) = Inl (UserError Not_XML_compliant)"
  using assms by (simp add: product_file_change_def parse_file_detect)

lemma product_file_change_parsed:
  assumes "product_file self = Some content" "content \<noteq> []" "product_filename self \<noteq> []"
    "b64decode e content \<noteq> []" "fromstring e (b64decode e content) = Some tree"
  shows "snd (product_file_change e self) =
     (case parse_xml_catalogue e (Some tree) True of
        Inl (UserError m) \<Rightarrow> Inl (UserError Unsupported_XML_document)
      | Inl (NotImplementedError m) \<Rightarrow> Inl (UserError Unsupported_XML_document)
      | Inl err \<Rightarrow> Inl err
      | Inr r \<Rightarrow> if r = Py_None then Inr (Warning (product_filename self)) else Inr No_action)"
  using assms
  by (simp add: product_file_change_def parse_file_detect split: sum.splits error.splits)

lemma warning_only_when:
  assumes "snd (product_file_change e self) = Inr (Warning w)"
  shows "w = product_filename self
       \<and> (\<exists>content tree. product_file self = Some content \<and> content \<noteq> []
            \<and> product_filename self \<noteq> [] \<and> b64decode e content \<noteq> []
            \<and> fromstring e (b64decode e content) = Some tree
            \<and> parse_xml_catalogue e (Some tree) True = Inr Py_None)"
proof -
  have pre: "product_file self \<noteq> None" "product_file self \<noteq> Some []"
      "product_filename self \<noteq> []"
  proof -
    show "product_file self \<noteq> None"
    proof
      assume "product_file self = None"
      then have "snd (product_file_change e self) = Inr No_action"
        by (intro product_file_change_unset) simp
      with assms show False by simp
    qed
    show "product_file self \<noteq> Some []"
    proof
      assume "product_file self = Some []"
      then have "snd (product_file_change e self) = Inr No_action"
        by (intro product_file_change_unset) simp
      with assms show False by simp
    qed
    show "product_filename self \<noteq> []"
    proof
      assume "product_filename self = []"
      then have "snd (product_file_change e self) = Inr No_action"
        by (intro product_file_change_unset) simp
      with assms show False by simp
    qed
  qed
  from pre(1) obtain content where c0: "product_file self = Some content"
    by (cases "product_file self") simp_all
  with pre have c: "product_file self = Some content" "content \<noteq> []"
      "product_filename self \<noteq> []"
    by simp_all
  have d: "b64decode e content \<noteq> []"
    using assms product_file_change_empty [OF c] by auto
  obtain tree where t: "fromstring e (b64decode e content) = Some tree"
    using assms product_file_change_malformed [OF c d]
    by (cases "fromstring e (b64decode e content)") auto
  note p = product_file_change_parsed [OF c d t]
  from assms have "parse_xml_catalogue e (Some tree) True = Inr Py_None
                   \<and> w = product_filename self"
    unfolding p by (auto split: sum.splits error.splits if_splits)
  with c d t show ?thesis by blast
qed

text \<open>
  C5, as the code has it. The file-change check has no event on any path: it never starts
  the import. It returns the warning exactly when the file and its name are set, the
  content parses as XML and \<^verbatim>\<open>parse_xml_catalogue\<close> returns \<^verbatim>\<open>None\<close> in detection mode.
  It raises the user error "This XML file is not XML-compliant" exactly when the content
  does not parse as XML, and the user error "Unsupported XML document" exactly when the
  content parses and \<^verbatim>\<open>parse_xml_catalogue\<close> raises \<^verbatim>\<open>NotImplementedError\<close> or
  \<^verbatim>\<open>UserError\<close>. Any other exception of \<^verbatim>\<open>parse_xml_catalogue\<close> goes through unchanged; any
  other result than \<^verbatim>\<open>None\<close> gives no warning; and with no file, an empty file or no
  filename the check does nothing.
\<close>

theorem detection_outcomes:
  "fst (product_file_change e self) = []
   \<and> (\<forall>w. snd (product_file_change e self) = Inr (Warning w) \<longleftrightarrow>
          w = product_filename self
          \<and> (\<exists>content tree. product_file self = Some content \<and> content \<noteq> []
               \<and> product_filename self \<noteq> [] \<and> b64decode e content \<noteq> []
               \<and> fromstring e (b64decode e content) = Some tree
               \<and> parse_xml_catalogue e (Some tree) True = Inr Py_None))
   \<and> ((product_file self = None \<or> product_file self = Some [] \<or> product_filename self = [])
        \<longrightarrow> snd (product_file_change e self) = Inr No_action)
   \<and> (\<forall>content. product_file self = Some content \<and> content \<noteq> []
          \<and> product_filename self \<noteq> [] \<and> b64decode e content \<noteq> []
        \<longrightarrow> (snd (product_file_change e self) = Inl (UserError Not_XML_compliant)
                \<longleftrightarrow> fromstring e (b64decode e content) = None)
            \<and> (snd (product_file_change e self) = Inl (UserError Unsupported_XML_document)
                \<longleftrightarrow> (\<exists>tree m. fromstring e (b64decode e content) = Some tree
                       \<and> (parse_xml_catalogue e (Some tree) True = Inl (NotImplementedError m)
                          \<or> parse_xml_catalogue e (Some tree) True = Inl (UserError m))))
            \<and> (\<forall>tree err. fromstring e (b64decode e content) = Some tree
                   \<and> parse_xml_catalogue e (Some tree) True = Inl err
                   \<and> (\<forall>m. err \<noteq> UserError m) \<and> (\<forall>m. err \<noteq> NotImplementedError m)
                 \<longrightarrow> snd (product_file_change e self) = Inl err)
            \<and> (\<forall>tree r. fromstring e (b64decode e content) = Some tree
                   \<and> parse_xml_catalogue e (Some tree) True = Inr r \<and> r \<noteq> Py_None
                 \<longrightarrow> snd (product_file_change e self) = Inr No_action))"
proof (intro conjI allI impI)
  show "fst (product_file_change e self) = []"
    by (rule product_file_change_no_event)
next
  fix w
  show "snd (product_file_change e self) = Inr (Warning w) \<longleftrightarrow>
          w = product_filename self
          \<and> (\<exists>content tree. product_file self = Some content \<and> content \<noteq> []
               \<and> product_filename self \<noteq> [] \<and> b64decode e content \<noteq> []
               \<and> fromstring e (b64decode e content) = Some tree
               \<and> parse_xml_catalogue e (Some tree) True = Inr Py_None)"
  proof
    assume "snd (product_file_change e self) = Inr (Warning w)"
    then show "w = product_filename self
          \<and> (\<exists>content tree. product_file self = Some content \<and> content \<noteq> []
               \<and> product_filename self \<noteq> [] \<and> b64decode e content \<noteq> []
               \<and> fromstring e (b64decode e content) = Some tree
               \<and> parse_xml_catalogue e (Some tree) True = Inr Py_None)"
      by (rule warning_only_when)
  next
    assume r: "w = product_filename self
          \<and> (\<exists>content tree. product_file self = Some content \<and> content \<noteq> []
               \<and> product_filename self \<noteq> [] \<and> b64decode e content \<noteq> []
               \<and> fromstring e (b64decode e content) = Some tree
               \<and> parse_xml_catalogue e (Some tree) True = Inr Py_None)"
    then obtain content tree where c: "product_file self = Some content" "content \<noteq> []"
        "product_filename self \<noteq> []" "b64decode e content \<noteq> []"
        "fromstring e (b64decode e content) = Some tree"
      and n: "parse_xml_catalogue e (Some tree) True = Inr Py_None"
      by blast
    from r show "snd (product_file_change e self) = Inr (Warning w)"
      unfolding product_file_change_parsed [OF c] n by simp
  qed
next
  assume "product_file self = None \<or> product_file self = Some [] \<or> product_filename self = []"
  then show "snd (product_file_change e self) = Inr No_action"
    by (rule product_file_change_unset)
next
  fix content
  assume h: "product_file self = Some content \<and> content \<noteq> []
          \<and> product_filename self \<noteq> [] \<and> b64decode e content \<noteq> []"
  then have c: "product_file self = Some content" "content \<noteq> []"
      "product_filename self \<noteq> []" "b64decode e content \<noteq> []"
    by simp_all
  show "snd (product_file_change e self) = Inl (UserError Not_XML_compliant)
          \<longleftrightarrow> fromstring e (b64decode e content) = None"
  proof (cases "fromstring e (b64decode e content)")
    case None
    then show ?thesis
      using product_file_change_malformed [OF c] by simp
  next
    case (Some tree)
    then show ?thesis
      unfolding product_file_change_parsed [OF c Some]
      by (auto split: sum.splits error.splits)
  qed
  show "snd (product_file_change e self) = Inl (UserError Unsupported_XML_document)
          \<longleftrightarrow> (\<exists>tree m. fromstring e (b64decode e content) = Some tree
                 \<and> (parse_xml_catalogue e (Some tree) True = Inl (NotImplementedError m)
                    \<or> parse_xml_catalogue e (Some tree) True = Inl (UserError m)))"
  proof (cases "fromstring e (b64decode e content)")
    case None
    then show ?thesis
      using product_file_change_malformed [OF c] by simp
  next
    case (Some tree)
    then show ?thesis
      unfolding product_file_change_parsed [OF c Some]
      by (auto split: sum.splits error.splits)
  qed
next
  fix content tree err
  assume h: "product_file self = Some content \<and> content \<noteq> []
          \<and> product_filename self \<noteq> [] \<and> b64decode e content \<noteq> []"
    and g: "fromstring e (b64decode e content) = Some tree
                   \<and> parse_xml_catalogue e (Some tree) True = Inl err
                   \<and> (\<forall>m. err \<noteq> UserError m) \<and> (\<forall>m. err \<noteq> NotImplementedError m)"
  from h have c: "product_file self = Some content" "content \<noteq> []"
      "product_filename self \<noteq> []" "b64decode e content \<noteq> []"
    by simp_all
  from g have t: "fromstring e (b64decode e content) = Some tree" by simp
  from g show "snd (product_file_change e self) = Inl err"
    unfolding product_file_change_parsed [OF c t] by (cases err) simp_all
next
  fix content tree r
  assume h: "product_file self = Some content \<and> content \<noteq> []
          \<and> product_filename self \<noteq> [] \<and> b64decode e content \<noteq> []"
    and g: "fromstring e (b64decode e content) = Some tree
                   \<and> parse_xml_catalogue e (Some tree) True = Inr r \<and> r \<noteq> Py_None"
  from h have c: "product_file self = Some content" "content \<noteq> []"
      "product_filename self \<noteq> []" "b64decode e content \<noteq> []"
    by simp_all
  from g have t: "fromstring e (b64decode e content) = Some tree" by simp
  from g show "snd (product_file_change e self) = Inr No_action"
    unfolding product_file_change_parsed [OF c t] by simp
qed

theorem detection_outcomes_witness:
  "fst (product_file_change env_none wizard0) = []
   \<and> snd (product_file_change env_none wizard0) = Inr (Warning ''catalogue.xml'')
   \<and> snd (product_file_change env_none (wizard0\<lparr>product_file := Some ''%PDF-1.4''\<rparr>))
       = Inl (UserError Not_XML_compliant)
   \<and> snd (product_file_change env0 wizard0) = Inl (UserError Unsupported_XML_document)"
proof -
  have 1: "product_file wizard0 = Some ''<catalogue/>'' \<and> ''<catalogue/>'' \<noteq> []
      \<and> product_filename wizard0 \<noteq> [] \<and> b64decode env_none ''<catalogue/>'' \<noteq> []
      \<and> fromstring env_none (b64decode env_none ''<catalogue/>'')
          = Some (Element ''catalogue'' [])
      \<and> parse_xml_catalogue env_none (Some (Element ''catalogue'' [])) True = Inr Py_None"
    by (simp add: wizard0_def env_none_def env0_def)
  have n: "product_filename wizard0 = ''catalogue.xml''"
    by (simp add: wizard0_def)
  have 2: "product_file (wizard0\<lparr>product_file := Some ''%PDF-1.4''\<rparr>) = Some ''%PDF-1.4''
      \<and> ''%PDF-1.4'' \<noteq> []
      \<and> product_filename (wizard0\<lparr>product_file := Some ''%PDF-1.4''\<rparr>) \<noteq> []
      \<and> b64decode env_none ''%PDF-1.4'' \<noteq> []"
    by (simp add: wizard0_def env_none_def env0_def)
  have m2: "fromstring env_none (b64decode env_none ''%PDF-1.4'') = None"
    by (simp add: env_none_def env0_def)
  have 3: "product_file wizard0 = Some ''<catalogue/>'' \<and> ''<catalogue/>'' \<noteq> []
      \<and> product_filename wizard0 \<noteq> [] \<and> b64decode env0 ''<catalogue/>'' \<noteq> []"
    by (simp add: wizard0_def env0_def)
  have m3: "fromstring env0 (b64decode env0 ''<catalogue/>'') = Some (Element ''catalogue'' [])
      \<and> (parse_xml_catalogue env0 (Some (Element ''catalogue'' [])) True
            = Inl (NotImplementedError File_not_supported)
          \<or> parse_xml_catalogue env0 (Some (Element ''catalogue'' [])) True
            = Inl (UserError File_not_supported))"
    by (simp add: env0_def parse_xml_catalogue_base_def)
  note t = detection_outcomes [of env_none wizard0]
  from t have a: "fst (product_file_change env_none wizard0) = []"
    by (rule conjunct1)
  have rhs: "''catalogue.xml'' = product_filename wizard0
          \<and> (\<exists>content tree. product_file wizard0 = Some content \<and> content \<noteq> []
               \<and> product_filename wizard0 \<noteq> [] \<and> b64decode env_none content \<noteq> []
               \<and> fromstring env_none (b64decode env_none content) = Some tree
               \<and> parse_xml_catalogue env_none (Some tree) True = Inr Py_None)"
    using 1 n by (intro conjI exI [of _ "''<catalogue/>''"] exI [of _ "Element ''catalogue'' []"])
      simp_all
  from t [THEN conjunct2, THEN conjunct1, THEN spec, of "''catalogue.xml''"] rhs
  have b: "snd (product_file_change env_none wizard0) = Inr (Warning ''catalogue.xml'')"
    by (rule iffD2)
  note u = detection_outcomes [of env_none "wizard0\<lparr>product_file := Some ''%PDF-1.4''\<rparr>",
      THEN conjunct2, THEN conjunct2, THEN conjunct2, THEN spec, THEN mp, OF 2]
  from u [THEN conjunct1] m2
  have c: "snd (product_file_change env_none (wizard0\<lparr>product_file := Some ''%PDF-1.4''\<rparr>))
       = Inl (UserError Not_XML_compliant)"
    by (rule iffD2)
  note v = detection_outcomes [of env0 wizard0,
      THEN conjunct2, THEN conjunct2, THEN conjunct2, THEN spec, THEN mp, OF 3]
  have rhs3: "\<exists>tree m. fromstring env0 (b64decode env0 ''<catalogue/>'') = Some tree
      \<and> (parse_xml_catalogue env0 (Some tree) True = Inl (NotImplementedError m)
          \<or> parse_xml_catalogue env0 (Some tree) True = Inl (UserError m))"
    using m3 by (intro exI [of _ "Element ''catalogue'' []"] exI [of _ File_not_supported])
  from v [THEN conjunct2, THEN conjunct1] rhs3
  have d: "snd (product_file_change env0 wizard0) = Inl (UserError Unsupported_XML_document)"
    by (rule iffD2)
  from a b c d show ?thesis by simp
qed

text \<open>
  The claim as the specification states it fails on this module's own parser: the
  document is well-formed, \<^verbatim>\<open>parse_xml_catalogue\<close> does not recognise it, and the check
  raises a user error instead of returning the warning.
\<close>

theorem unrecognized_format_counterexample:
  "fromstring env0 (b64decode env0 ''<catalogue/>'') = Some (Element ''catalogue'' [])
   \<and> parse_xml_catalogue env0 (Some (Element ''catalogue'' [])) True
       = Inl (NotImplementedError File_not_supported)
   \<and> product_file_change env0 wizard0 = ([], Inl (UserError Unsupported_XML_document))
   \<and> snd (product_file_change env0 wizard0) \<noteq> Inr (Warning (product_filename wizard0))"
  by (simp add: product_file_change_def parse_file_def parse_xml_def env0_def wizard0_def
      parse_xml_catalogue_base_def)

end
